theory Spec2Isabelle
  imports Complex_Main
begin

section \<open>Data model\<close>

text \<open>
  Prices, balances and volumes are modelled as real numbers: the arithmetic of the
  engine is taken as exact, IEEE rounding is not modelled. The places where the
  floating-point semantics is visible in the control flow (a reduction over an empty
  pandas window yields NaN, a numpy division by zero yields an infinity or NaN and does
  not raise) are written out: \<open>nf\<close> is a finite float or NaN, \<open>fl\<close> has the
  infinities as well.

  A bar time is a number of minutes since the epoch; \<open>strftime('%Y-%m-%d')\<close> is
  the day number and \<open>.hour\<close> the hour of the day.
\<close>

datatype error = IndexError | KeyError | TypeError | ZeroDivisionError

datatype nf = Num real | NaN

datatype fl = Fin real | PInf | NInf | FNaN

record bar =
  time :: nat
  open_price :: real
  high :: real
  low :: real
  close :: real
  tick_volume :: real

datatype signal_type = BUY | SELL

datatype exit_reason = TP | SL | TSL | END_OF_DATA

text \<open>The constructor arguments of \<open>Backtester\<close> (src/backtester.py, \<open>__init__\<close>).\<close>

record config =
  initial_balance :: real
  lot_size :: real
  risk_reward_ratio :: real
  consolidation_periods :: nat
  breakout_threshold :: real
  max_daily_trades :: nat

text \<open>The dictionary \<open>current_trade\<close> built by \<open>open_trade\<close>.\<close>

record open_trade =
  ct_type :: signal_type
  ct_entry_price :: real
  ct_entry_time :: nat
  ct_take_profit :: real
  ct_stop_loss :: real
  ct_lot_size :: real

text \<open>The dictionary \<open>trade_record\<close> built by \<open>close_trade\<close>.\<close>

record trade_record =
  tr_entry_time :: nat
  tr_exit_time :: nat
  tr_type :: signal_type
  tr_entry_price :: real
  tr_exit_price :: real
  tr_take_profit :: real
  tr_stop_loss :: real
  tr_points :: real
  tr_profit :: real
  tr_balance :: real
  tr_exit_reason :: exit_reason
  tr_win :: bool

record equity_sample =
  eq_time :: nat
  eq_balance :: real
  eq_in_position :: bool

text \<open>The mutable attributes of a \<open>Backtester\<close> object.\<close>

record state =
  balance :: real
  in_position :: bool
  current_trade :: "open_trade option"
  trades :: "trade_record list"
  equity_curve :: "equity_sample list"
  daily_trades_count :: "nat \<rightharpoonup> nat"

section \<open>Pandas and numpy primitives\<close>

text \<open>\<open>df.iloc[k]\<close>: a negative position counts from the end, a position out of range raises.\<close>

definition iloc :: "'a list \<Rightarrow> int \<Rightarrow> error + 'a" where
  "iloc df k =
     (let n = int (length df); j = (if k < 0 then n + k else k)
      in if 0 \<le> j \<and> j < n then Inr (df ! nat j) else Inl IndexError)"

text \<open>\<open>df.iloc[a:b]\<close> for \<open>0 \<le> a\<close>: the slice is cut at the end of the frame, it never raises.\<close>

definition slice :: "'a list \<Rightarrow> nat \<Rightarrow> nat \<Rightarrow> 'a list" where
  "slice df a b = take (b - a) (drop a df)"

fun pd_max :: "real list \<Rightarrow> nf" where
  "pd_max [] = NaN"
| "pd_max (x # xs) = Num (foldl max x xs)"

fun pd_min :: "real list \<Rightarrow> nf" where
  "pd_min [] = NaN"
| "pd_min (x # xs) = Num (foldl min x xs)"

definition pd_mean :: "real list \<Rightarrow> nf" where
  "pd_mean xs = (if xs = [] then NaN else Num (sum_list xs / real (length xs)))"

text \<open>Division of two finite numpy floats: a zero divisor gives an infinity or NaN.\<close>

definition np_div :: "real \<Rightarrow> real \<Rightarrow> fl" where
  "np_div a b =
     (if b \<noteq> 0 then Fin (a / b)
      else if a > 0 then PInf else if a < 0 then NInf else FNaN)"

fun nf_sub :: "nf \<Rightarrow> nf \<Rightarrow> nf" where
  "nf_sub (Num a) (Num b) = Num (a - b)"
| "nf_sub _ _ = NaN"

fun nf_div :: "nf \<Rightarrow> nf \<Rightarrow> fl" where
  "nf_div (Num a) (Num b) = np_div a b"
| "nf_div _ _ = FNaN"

text \<open>\<open>x < t\<close> for a finite \<open>t\<close>: false on NaN.\<close>

fun fl_less :: "fl \<Rightarrow> real \<Rightarrow> bool" where
  "fl_less (Fin a) t = (a < t)"
| "fl_less NInf t = True"
| "fl_less PInf t = False"
| "fl_less FNaN t = False"

section \<open>The basic engine (src/backtester.py)\<close>

definition identify_consolidation ::
  "'a config_scheme \<Rightarrow> bar list \<Rightarrow> nat \<Rightarrow> bool \<times> (nf \<times> nf \<times> nf) option" where
  "identify_consolidation cfg df current_idx =
     (if current_idx < consolidation_periods cfg then (False, None)
      else
        let start_idx = current_idx - consolidation_periods cfg;
            recent_data = slice df start_idx current_idx;
            high_level = pd_max (map high recent_data);
            low_level = pd_min (map low recent_data);
            box_range = nf_sub high_level low_level;
            avg_price = pd_mean (map close recent_data);
            price_range_ratio = nf_div box_range avg_price;
            is_consolidating = fl_less price_range_ratio (breakout_threshold cfg)
        in (is_consolidating, Some (high_level, low_level, box_range)))"

definition detect_breakout ::
  "bar list \<Rightarrow> nat \<Rightarrow> real \<Rightarrow> real \<Rightarrow> error + signal_type option" where
  "detect_breakout df current_idx high_level low_level =
     (if current_idx < 1 then Inr None
      else
        case iloc df (int current_idx) of
          Inl e \<Rightarrow> Inl e
        | Inr current_bar \<Rightarrow>
            (case iloc df (int current_idx - 1) of
               Inl e \<Rightarrow> Inl e
             | Inr previous_bar \<Rightarrow>
                 let current_price = close current_bar;
                     previous_price = close previous_bar
                 in if previous_price \<le> high_level \<and> current_price > high_level
                    then Inr (Some BUY)
                    else if previous_price \<ge> low_level \<and> current_price < low_level
                    then Inr (Some SELL)
                    else Inr None))"

text \<open>Returns \<open>(take_profit, stop_loss)\<close>.\<close>

definition calculate_tp_sl ::
  "'a config_scheme \<Rightarrow> real \<Rightarrow> signal_type \<Rightarrow> real \<Rightarrow> real \<times> real" where
  "calculate_tp_sl cfg entry_price sig box_range =
     (let sl_multiplier = 1.2 in
      case sig of
        BUY \<Rightarrow>
          let stop_loss = entry_price - (box_range * sl_multiplier);
              risk = entry_price - stop_loss;
              take_profit = entry_price + (risk * risk_reward_ratio cfg)
          in (take_profit, stop_loss)
      | SELL \<Rightarrow>
          let stop_loss = entry_price + (box_range * sl_multiplier);
              risk = stop_loss - entry_price;
              take_profit = entry_price - (risk * risk_reward_ratio cfg)
          in (take_profit, stop_loss))"

definition open_trade ::
  "config \<Rightarrow> state \<Rightarrow> signal_type \<Rightarrow> real \<Rightarrow> nat \<Rightarrow> real \<Rightarrow> real \<Rightarrow> state" where
  "open_trade cfg s sig entry_price entry_time take_profit stop_loss =
     s\<lparr>current_trade := Some \<lparr>ct_type = sig, ct_entry_price = entry_price,
                              ct_entry_time = entry_time, ct_take_profit = take_profit,
                              ct_stop_loss = stop_loss, ct_lot_size = lot_size cfg\<rparr>,
       in_position := True\<rparr>"

text \<open>
  \<open>check_trade_exit\<close> returns \<open>(should_close, exit_price, exit_reason)\<close>:
  \<open>None\<close> is \<open>(False, None, None)\<close> and \<open>Some (p, r)\<close> is \<open>(True, p, r)\<close>.
\<close>

definition check_trade_exit :: "state \<Rightarrow> bar \<Rightarrow> (real \<times> exit_reason) option" where
  "check_trade_exit s current_bar =
     (if \<not> in_position s then None
      else
        case current_trade s of
          None \<Rightarrow> None
        | Some ct \<Rightarrow>
            let tp = ct_take_profit ct; sl = ct_stop_loss ct in
            (case ct_type ct of
               BUY \<Rightarrow>
                 if high current_bar \<ge> tp then Some (tp, TP)
                 else if low current_bar \<le> sl then Some (sl, SL)
                 else None
             | SELL \<Rightarrow>
                 if low current_bar \<le> tp then Some (tp, TP)
                 else if high current_bar \<ge> sl then Some (sl, SL)
                 else None))"

text \<open>
  \<open>close_trade\<close> subscripts \<open>self.current_trade\<close>: with \<open>in_position\<close> set and no
  current trade that is a \<open>TypeError\<close>.
\<close>

definition close_trade ::
  "config \<Rightarrow> state \<Rightarrow> real \<Rightarrow> nat \<Rightarrow> exit_reason \<Rightarrow> error + state" where
  "close_trade cfg s exit_price exit_time reason =
     (if \<not> in_position s then Inr s
      else
        case current_trade s of
          None \<Rightarrow> Inl TypeError
        | Some trade \<Rightarrow>
            let points = (case ct_type trade of
                            BUY \<Rightarrow> exit_price - ct_entry_price trade
                          | SELL \<Rightarrow> ct_entry_price trade - exit_price);
                profit = points * lot_size cfg * 100;
                balance' = balance s + profit;
                trade_rec = \<lparr>tr_entry_time = ct_entry_time trade, tr_exit_time = exit_time,
                             tr_type = ct_type trade, tr_entry_price = ct_entry_price trade,
                             tr_exit_price = exit_price,
                             tr_take_profit = ct_take_profit trade,
                             tr_stop_loss = ct_stop_loss trade, tr_points = points,
                             tr_profit = profit, tr_balance = balance',
                             tr_exit_reason = reason, tr_win = (profit > 0)\<rparr>
            in Inr (s\<lparr>balance := balance', trades := trades s @ [trade_rec],
                      in_position := False, current_trade := None\<rparr>))"

definition date_str :: "nat \<Rightarrow> nat" where
  "date_str t = t div 1440"

definition can_trade_today :: "'a config_scheme \<Rightarrow> (nat \<rightharpoonup> nat) \<Rightarrow> nat \<Rightarrow> bool" where
  "can_trade_today cfg counts current_time =
     (let trades_today = (case counts (date_str current_time) of None \<Rightarrow> 0 | Some c \<Rightarrow> c)
      in trades_today < max_daily_trades cfg)"

definition increment_daily_trades :: "(nat \<rightharpoonup> nat) \<Rightarrow> nat \<Rightarrow> (nat \<rightharpoonup> nat)" where
  "increment_daily_trades counts current_time =
     counts(date_str current_time \<mapsto>
              (case counts (date_str current_time) of None \<Rightarrow> 0 | Some c \<Rightarrow> c) + 1)"

text \<open>
  The levels handed on when \<open>is_consolidating\<close> holds. The comparison of the ratio
  with the threshold is false on NaN, so the three levels are numbers then.
\<close>

fun box_levels :: "bool \<times> (nf \<times> nf \<times> nf) option \<Rightarrow> (real \<times> real \<times> real) option" where
  "box_levels (True, Some (Num h, Num l, Num r)) = Some (h, l, r)"
| "box_levels _ = None"

text \<open>The state set by \<open>run_backtest\<close> before the loop.\<close>

definition reset :: "config \<Rightarrow> state" where
  "reset cfg = \<lparr>balance = initial_balance cfg, in_position = False, current_trade = None,
                trades = [], equity_curve = [], daily_trades_count = Map.empty\<rparr>"

text \<open>The exit check at the head of the loop body.\<close>

definition exit_phase :: "config \<Rightarrow> state \<Rightarrow> bar \<Rightarrow> error + state" where
  "exit_phase cfg s current_bar =
     (if in_position s then
        (case check_trade_exit s current_bar of
           None \<Rightarrow> Inr s
         | Some (exit_price, reason) \<Rightarrow>
             close_trade cfg s exit_price (time current_bar) reason)
      else Inr s)"

definition record_equity :: "state \<Rightarrow> nat \<Rightarrow> state" where
  "record_equity s current_time =
     s\<lparr>equity_curve := equity_curve s @
          [\<lparr>eq_time = current_time, eq_balance = balance s,
            eq_in_position = in_position s\<rparr>]\<rparr>"

text \<open>The search for a new trade at the end of the loop body.\<close>

definition entry_phase :: "config \<Rightarrow> bar list \<Rightarrow> state \<Rightarrow> nat \<Rightarrow> bar \<Rightarrow> error + state" where
  "entry_phase cfg df s i current_bar =
     (let current_time = time current_bar; current_price = close current_bar in
      if in_position s then Inr s
      else if \<not> can_trade_today cfg (daily_trades_count s) current_time then Inr s
      else
        case box_levels (identify_consolidation cfg df i) of
          None \<Rightarrow> Inr s
        | Some (high_level, low_level, box_range) \<Rightarrow>
            (case detect_breakout df i high_level low_level of
               Inl e \<Rightarrow> Inl e
             | Inr None \<Rightarrow> Inr s
             | Inr (Some sig) \<Rightarrow>
                 let (tp, sl) = calculate_tp_sl cfg current_price sig box_range;
                     s' = open_trade cfg s sig current_price current_time tp sl
                 in Inr (s'\<lparr>daily_trades_count :=
                             increment_daily_trades (daily_trades_count s') current_time\<rparr>)))"

text \<open>One iteration of the main loop of \<open>run_backtest\<close>, at bar \<open>i\<close>.\<close>

definition step :: "config \<Rightarrow> bar list \<Rightarrow> state \<Rightarrow> nat \<Rightarrow> error + state" where
  "step cfg df s i =
     (case iloc df (int i) of
        Inl e \<Rightarrow> Inl e
      | Inr current_bar \<Rightarrow>
          (case exit_phase cfg s current_bar of
             Inl e \<Rightarrow> Inl e
           | Inr s1 \<Rightarrow>
               entry_phase cfg df (record_equity s1 (time current_bar)) i current_bar))"

fun run_loop :: "config \<Rightarrow> bar list \<Rightarrow> state \<Rightarrow> nat list \<Rightarrow> error + state" where
  "run_loop cfg df s [] = Inr s"
| "run_loop cfg df s (i # is) =
     (case step cfg df s i of Inl e \<Rightarrow> Inl e | Inr s' \<Rightarrow> run_loop cfg df s' is)"

subsection \<open>Results\<close>

record results =
  r_total_trades :: nat
  r_winning_trades :: nat
  r_losing_trades :: nat
  r_win_rate :: real
  r_total_profit :: real
  r_total_loss :: real
  r_net_profit :: real
  r_return_pct :: fl
  r_max_drawdown :: nf
  r_max_drawdown_pct :: fl
  r_avg_win :: real
  r_avg_loss :: real
  r_profit_factor :: fl
  r_largest_win :: real
  r_largest_loss :: real
  r_final_balance :: real
  r_initial_balance :: real

text \<open>Python's \<open>/\<close> on two \<open>int\<close>s raises on a zero divisor.\<close>

definition py_truediv :: "nat \<Rightarrow> nat \<Rightarrow> error + real" where
  "py_truediv a b = (if b = 0 then Inl ZeroDivisionError else Inr (real a / real b))"

fun cummax_from :: "real \<Rightarrow> real list \<Rightarrow> real list" where
  "cummax_from m [] = []"
| "cummax_from m (x # xs) = max m x # cummax_from (max m x) xs"

fun cummax :: "real list \<Rightarrow> real list" where
  "cummax [] = []"
| "cummax (x # xs) = x # cummax_from x xs"

fun fl_times :: "fl \<Rightarrow> real \<Rightarrow> fl" where
  "fl_times (Fin a) c = Fin (a * c)"
| "fl_times x c = x"

text \<open>The larger of two values that are not NaN.\<close>

fun fl_max2 :: "fl \<Rightarrow> fl \<Rightarrow> fl" where
  "fl_max2 (Fin a) (Fin b) = Fin (max a b)"
| "fl_max2 PInf _ = PInf"
| "fl_max2 _ PInf = PInf"
| "fl_max2 NInf y = y"
| "fl_max2 x _ = x"

text \<open>\<open>Series.max()\<close> skips NaN, and is NaN when nothing is left.\<close>

definition pd_max_skipna :: "fl list \<Rightarrow> fl" where
  "pd_max_skipna xs =
     (case filter (\<lambda>x. x \<noteq> FNaN) xs of [] \<Rightarrow> FNaN | y # ys \<Rightarrow> foldl fl_max2 y ys)"

text \<open>
  \<open>get_results\<close>. \<open>equity_df['balance']\<close> is a \<open>KeyError\<close> on a frame built from an
  empty equity curve. The percentages divide numpy floats.
\<close>

definition get_results :: "'a config_scheme \<Rightarrow> state \<Rightarrow> error + results" where
  "get_results cfg s =
     (if length (trades s) = 0 then
        Inr \<lparr>r_total_trades = 0, r_winning_trades = 0, r_losing_trades = 0, r_win_rate = 0,
             r_total_profit = 0, r_total_loss = 0, r_net_profit = 0, r_return_pct = Fin 0,
             r_max_drawdown = Num 0, r_max_drawdown_pct = Fin 0, r_avg_win = 0,
             r_avg_loss = 0, r_profit_factor = Fin 0, r_largest_win = 0,
             r_largest_loss = 0, r_final_balance = balance s,
             r_initial_balance = initial_balance cfg\<rparr>
      else
        let winning = filter (\<lambda>t. tr_win t = True) (trades s);
            losing = filter (\<lambda>t. tr_win t = False) (trades s);
            total_profit = (if length winning > 0 then sum_list (map tr_profit winning) else 0);
            total_loss = (if length losing > 0 then \<bar>sum_list (map tr_profit losing)\<bar> else 0)
        in
        if equity_curve s = [] then Inl KeyError
        else
          let balances = map eq_balance (equity_curve s);
              peak = cummax balances;
              drawdown = map (\<lambda>(p, b). p - b) (zip peak balances);
              drawdown_pct = map (\<lambda>(d, p). fl_times (np_div d p) 100) (zip drawdown peak);
              max_drawdown = pd_max drawdown;
              max_drawdown_pct = pd_max_skipna drawdown_pct
          in
          case (if length (trades s) > 0
                then (case py_truediv (length winning) (length (trades s)) of
                        Inl e \<Rightarrow> Inl e | Inr q \<Rightarrow> Inr (q * 100))
                else Inr 0) of
            Inl e \<Rightarrow> Inl e
          | Inr win_rate \<Rightarrow>
              Inr \<lparr>r_total_trades = length (trades s),
                   r_winning_trades = length winning,
                   r_losing_trades = length losing,
                   r_win_rate = win_rate,
                   r_total_profit = total_profit,
                   r_total_loss = total_loss,
                   r_net_profit = total_profit - total_loss,
                   r_return_pct =
                     fl_times (np_div (balance s - initial_balance cfg) (initial_balance cfg)) 100,
                   r_max_drawdown = max_drawdown,
                   r_max_drawdown_pct = max_drawdown_pct,
                   r_avg_win = (if length winning > 0
                                then sum_list (map tr_profit winning) / real (length winning)
                                else 0),
                   r_avg_loss = (if length losing > 0
                                 then sum_list (map tr_profit losing) / real (length losing)
                                 else 0),
                   r_profit_factor =
                     (if total_loss > 0 then Fin (total_profit / total_loss) else PInf),
                   r_largest_win = (if length winning > 0
                                    then foldl max (hd (map tr_profit winning))
                                           (tl (map tr_profit winning))
                                    else 0),
                   r_largest_loss = (if length losing > 0
                                     then foldl min (hd (map tr_profit losing))
                                            (tl (map tr_profit losing))
                                     else 0),
                   r_final_balance = balance s,
                   r_initial_balance = initial_balance cfg\<rparr>)"

text \<open>The forced close after the loop.\<close>

definition close_remaining :: "config \<Rightarrow> bar list \<Rightarrow> state \<Rightarrow> nat \<Rightarrow> error + state" where
  "close_remaining cfg df s end_idx =
     (if in_position s then
        (case iloc df (int end_idx - 1) of
           Inl e \<Rightarrow> Inl e
         | Inr last_bar \<Rightarrow> close_trade cfg s (close last_bar) (time last_bar) END_OF_DATA)
      else Inr s)"

text \<open>The defaults of \<open>start_idx\<close> and \<open>end_idx\<close>.\<close>

definition start_of :: "config \<Rightarrow> nat option \<Rightarrow> nat" where
  "start_of cfg start_opt =
     (case start_opt of None \<Rightarrow> consolidation_periods cfg | Some a \<Rightarrow> a)"

definition end_of :: "bar list \<Rightarrow> nat option \<Rightarrow> nat" where
  "end_of df end_opt = (case end_opt of None \<Rightarrow> length df | Some b \<Rightarrow> b)"

text \<open>
  The final state of \<open>run_backtest\<close>. The progress line printed before the loop reads
  \<open>df.iloc[start_idx]\<close> and \<open>df.iloc[end_idx-1]\<close>, and raises when either is out of range.
\<close>

definition run_state ::
  "config \<Rightarrow> bar list \<Rightarrow> nat option \<Rightarrow> nat option \<Rightarrow> error + state" where
  "run_state cfg df start_opt end_opt =
     (let start_idx = start_of cfg start_opt;
          end_idx = end_of df end_opt
      in case iloc df (int start_idx) of
           Inl e \<Rightarrow> Inl e
         | Inr _ \<Rightarrow>
             (case iloc df (int end_idx - 1) of
                Inl e \<Rightarrow> Inl e
              | Inr _ \<Rightarrow>
                  (case run_loop cfg df (reset cfg) [start_idx..<end_idx] of
                     Inl e \<Rightarrow> Inl e
                   | Inr s \<Rightarrow> close_remaining cfg df s end_idx)))"

text \<open>\<open>run_backtest\<close>: the final state of the object and the dictionary it returns.\<close>

definition run_backtest ::
  "config \<Rightarrow> bar list \<Rightarrow> nat option \<Rightarrow> nat option \<Rightarrow> error + (state \<times> results)" where
  "run_backtest cfg df start_opt end_opt =
     (case run_state cfg df start_opt end_opt of
        Inl e \<Rightarrow> Inl e
      | Inr s \<Rightarrow> (case get_results cfg s of Inl e \<Rightarrow> Inl e | Inr r \<Rightarrow> Inr (s, r)))"

subsection \<open>Invariants of the replay\<close>

text \<open>The two position attributes agree.\<close>

definition wf_state :: "state \<Rightarrow> bool" where
  "wf_state s = (in_position s = (current_trade s \<noteq> None))"

text \<open>\<open>daily_trades_count.get(d, 0)\<close>.\<close>

definition counted :: "(nat \<rightharpoonup> nat) \<Rightarrow> nat \<Rightarrow> nat" where
  "counted counts d = (case counts d of None \<Rightarrow> 0 | Some c \<Rightarrow> c)"

text \<open>The number of trades entered on day \<open>d\<close>: the closed ones and the open one.\<close>

definition opened_on :: "nat \<Rightarrow> state \<Rightarrow> nat" where
  "opened_on d s =
     length (filter (\<lambda>tr. date_str (tr_entry_time tr) = d) (trades s))
     + (case current_trade s of
          None \<Rightarrow> 0
        | Some ct \<Rightarrow> if date_str (ct_entry_time ct) = d then 1 else 0)"

text \<open>What holds before bar \<open>i\<close> of a replay that started at bar \<open>start\<close>.\<close>

definition core_inv :: "config \<Rightarrow> bar list \<Rightarrow> nat \<Rightarrow> nat \<Rightarrow> state \<Rightarrow> bool" where
  "core_inv cfg df start i s =
     (wf_state s
      \<and> balance s = initial_balance cfg + sum_list (map tr_profit (trades s))
      \<and> map eq_time (equity_curve s) = map (\<lambda>j. time (df ! j)) [start..<i]
      \<and> (\<forall>d. opened_on d s = counted (daily_trades_count s) d)
      \<and> (\<forall>d. counted (daily_trades_count s) d \<le> max_daily_trades cfg)
      \<and> ((trades s = [] \<and> \<not> in_position s) \<or> equity_curve s \<noteq> []))"






section \<open>The ultra engine (src/ultra_backtester.py)\<close>

text \<open>
  The constructor arguments of \<open>UltraBacktester\<close>: those of the basic engine and the
  filter parameters. \<open>identify_consolidation\<close>, \<open>can_trade_today\<close> and
  \<open>increment_daily_trades\<close> are the same code as in the basic engine.
\<close>

record ultra_config = config +
  use_trend_filter :: bool
  trend_period :: nat
  use_breakout_strength :: bool
  min_breakout_strength :: real
  use_atr_stops :: bool
  atr_period :: nat
  atr_multiplier :: real
  volume_multiplier :: real
  use_rsi_filter :: bool
  rsi_period :: nat
  rsi_overbought :: real
  rsi_oversold :: real
  use_consolidation_quality :: bool
  min_touches :: nat
  use_time_filter :: bool
  trading_start_hour :: nat
  trading_end_hour :: nat
  use_trailing_stop :: bool
  trailing_stop_pct :: real
  use_false_breakout_filter :: bool
  confirmation_bars :: nat
  use_mtf_confirmation :: bool
  higher_tf_period :: nat

text \<open>
  The current trade of the ultra engine. Its levels come from the ATR, which is NaN over
  an empty window; \<open>trailing_stop\<close> is \<open>None\<close> when trailing stops are off.
\<close>

record u_trade =
  uct_type :: signal_type
  uct_entry_price :: real
  uct_entry_time :: nat
  uct_take_profit :: nf
  uct_stop_loss :: nf
  uct_lot_size :: real
  uct_trailing_stop :: "nf option"

record u_trade_record =
  utr_entry_time :: nat
  utr_exit_time :: nat
  utr_type :: signal_type
  utr_entry_price :: real
  utr_exit_price :: real
  utr_take_profit :: nf
  utr_stop_loss :: nf
  utr_points :: real
  utr_profit :: real
  utr_balance :: real
  utr_exit_reason :: exit_reason
  utr_win :: bool

text \<open>The dictionary \<open>rejected_trades\<close>.\<close>

record rejections =
  rj_trend :: nat
  rj_strength :: nat
  rj_volume :: nat
  rj_rsi :: nat
  rj_quality :: nat
  rj_time :: nat
  rj_false_breakout :: nat
  rj_mtf :: nat

record u_state =
  u_balance :: real
  u_in_position :: bool
  u_current_trade :: "u_trade option"
  highest_price_in_trade :: "real option"
  lowest_price_in_trade :: "real option"
  u_trades :: "u_trade_record list"
  u_equity_curve :: "equity_sample list"
  u_daily_trades_count :: "nat \<rightharpoonup> nat"
  rejected_trades :: rejections

text \<open>Comparisons of floats that may be NaN: false on NaN.\<close>

fun nf_less :: "nf \<Rightarrow> nf \<Rightarrow> bool" where
  "nf_less (Num a) (Num b) = (a < b)"
| "nf_less _ _ = False"

text \<open>\<open>x >= level\<close> and \<open>x <= level\<close>, with the level when the comparison holds.\<close>

fun reached_up :: "real \<Rightarrow> nf \<Rightarrow> real option" where
  "reached_up x (Num t) = (if x \<ge> t then Some t else None)"
| "reached_up x NaN = None"

fun reached_down :: "real \<Rightarrow> nf \<Rightarrow> real option" where
  "reached_down x (Num t) = (if x \<le> t then Some t else None)"
| "reached_down x NaN = None"

definition hour_of :: "nat \<Rightarrow> nat" where
  "hour_of t = (t div 60) mod 24"

subsection \<open>Indicators\<close>

text \<open>\<open>Series.diff()\<close> without its leading NaN.\<close>

fun diffs :: "real list \<Rightarrow> real list" where
  "diffs (x # y # ys) = (y - x) # diffs (y # ys)"
| "diffs _ = []"

text \<open>
  \<open>calculate_rsi\<close>: \<open>where\<close> replaces the leading NaN of the differences by 0, so both
  means are taken over the length of the window.
\<close>

definition calculate_rsi :: "bar list \<Rightarrow> nat \<Rightarrow> nat \<Rightarrow> nf option" where
  "calculate_rsi df period idx =
     (if idx < period + 1 then None
      else
        let prices = map close (slice df (idx - period) idx);
            deltas = diffs prices;
            n = length prices
        in if n = 0 then Some NaN
           else
             let gain = sum_list (map (\<lambda>d. if d > 0 then d else 0) deltas) / real n;
                 loss = - (sum_list (map (\<lambda>d. if d < 0 then d else 0) deltas) / real n)
             in if loss = 0 then Some (Num 100)
                else Some (Num (100 - (100 / (1 + gain / loss)))))"

definition calculate_sma :: "bar list \<Rightarrow> nat \<Rightarrow> nat \<Rightarrow> nf option" where
  "calculate_sma df period idx =
     (if idx < period then None
      else Some (pd_mean (map close (slice df (idx - period) idx))))"

text \<open>
  The true range of each bar of a window: the row-wise maximum skips the NaN that
  \<open>shift(1)\<close> leaves in the first row.
\<close>

fun true_ranges :: "real option \<Rightarrow> bar list \<Rightarrow> real list" where
  "true_ranges prev [] = []"
| "true_ranges prev (b # bs) =
     (case prev of
        None \<Rightarrow> high b - low b
      | Some c \<Rightarrow> max (high b - low b) (max \<bar>high b - c\<bar> \<bar>low b - c\<bar>))
     # true_ranges (Some (close b)) bs"

definition calculate_atr :: "bar list \<Rightarrow> nat \<Rightarrow> nat \<Rightarrow> nf option" where
  "calculate_atr df period idx =
     (if idx < period + 1 then None
      else Some (pd_mean (true_ranges None (slice df (idx - period) idx))))"

subsection \<open>Filters\<close>

definition check_rsi_filter :: "ultra_config \<Rightarrow> bar list \<Rightarrow> nat \<Rightarrow> signal_type \<Rightarrow> bool" where
  "check_rsi_filter cfg df idx sig =
     (if \<not> use_rsi_filter cfg then True
      else
        case calculate_rsi df (rsi_period cfg) idx of
          None \<Rightarrow> True
        | Some rsi \<Rightarrow>
            if sig = BUY \<and> nf_less (Num (rsi_overbought cfg)) rsi then False
            else if sig = SELL \<and> nf_less rsi (Num (rsi_oversold cfg)) then False
            else True)"

definition check_consolidation_quality ::
  "ultra_config \<Rightarrow> bar list \<Rightarrow> real \<Rightarrow> real \<Rightarrow> nat \<Rightarrow> bool" where
  "check_consolidation_quality cfg df high_level low_level current_idx =
     (if \<not> use_consolidation_quality cfg then True
      else
        let start_idx = current_idx - consolidation_periods cfg;
            recent_data = slice df start_idx current_idx;
            box_range = high_level - low_level;
            touch_threshold = box_range * 0.1;
            upper_touches =
              length (filter (\<lambda>b. \<bar>high b - high_level\<bar> < touch_threshold) recent_data);
            lower_touches =
              length (filter (\<lambda>b. \<bar>low b - low_level\<bar> < touch_threshold) recent_data);
            total_touches = upper_touches + lower_touches
        in total_touches \<ge> min_touches cfg)"

definition check_time_filter :: "ultra_config \<Rightarrow> nat \<Rightarrow> bool" where
  "check_time_filter cfg current_time =
     (if \<not> use_time_filter cfg then True
      else
        let hour = hour_of current_time in
        if trading_start_hour cfg > trading_end_hour cfg
        then hour \<ge> trading_start_hour cfg \<or> hour \<le> trading_end_hour cfg
        else trading_start_hour cfg \<le> hour \<and> hour \<le> trading_end_hour cfg)"

text \<open>The loop of \<open>check_false_breakout\<close> over the offsets \<open>1, ..., confirmation_bars\<close>.\<close>

fun confirm_bars ::
  "bar list \<Rightarrow> nat \<Rightarrow> real \<Rightarrow> real \<Rightarrow> signal_type \<Rightarrow> nat list \<Rightarrow> error + bool" where
  "confirm_bars df idx high_level low_level sig [] = Inr True"
| "confirm_bars df idx high_level low_level sig (i # is) =
     (case iloc df (int (idx + i)) of
        Inl e \<Rightarrow> Inl e
      | Inr confirm_bar \<Rightarrow>
          (case sig of
             BUY \<Rightarrow>
               if close confirm_bar < high_level then Inr False
               else confirm_bars df idx high_level low_level sig is
           | SELL \<Rightarrow>
               if close confirm_bar > low_level then Inr False
               else confirm_bars df idx high_level low_level sig is))"

definition check_false_breakout ::
  "ultra_config \<Rightarrow> bar list \<Rightarrow> nat \<Rightarrow> real \<Rightarrow> real \<Rightarrow> signal_type \<Rightarrow> error + bool" where
  "check_false_breakout cfg df idx high_level low_level sig =
     (if \<not> use_false_breakout_filter cfg then Inr True
      else if idx + confirmation_bars cfg \<ge> length df then Inr False
      else confirm_bars df idx high_level low_level sig [1..<confirmation_bars cfg + 1])"

definition check_mtf_confirmation ::
  "ultra_config \<Rightarrow> bar list \<Rightarrow> nat \<Rightarrow> signal_type \<Rightarrow> error + bool" where
  "check_mtf_confirmation cfg df idx sig =
     (if \<not> use_mtf_confirmation cfg then Inr True
      else
        case calculate_sma df (higher_tf_period cfg) idx of
          None \<Rightarrow> Inr True
        | Some htf_ma \<Rightarrow>
            (case iloc df (int idx) of
               Inl e \<Rightarrow> Inl e
             | Inr bar \<Rightarrow>
                 (case sig of
                    BUY \<Rightarrow> Inr (nf_less htf_ma (Num (close bar)))
                  | SELL \<Rightarrow> Inr (nf_less (Num (close bar)) htf_ma))))"

definition check_trend ::
  "ultra_config \<Rightarrow> bar list \<Rightarrow> nat \<Rightarrow> signal_type \<Rightarrow> error + bool" where
  "check_trend cfg df idx sig =
     (if \<not> use_trend_filter cfg then Inr True
      else
        case (calculate_sma df 20 idx, calculate_sma df (trend_period cfg) idx) of
          (Some fast_ma, Some slow_ma) \<Rightarrow>
            (case iloc df (int idx) of
               Inl e \<Rightarrow> Inl e
             | Inr bar \<Rightarrow>
                 (case sig of
                    BUY \<Rightarrow>
                      Inr (nf_less slow_ma (Num (close bar)) \<and> nf_less slow_ma fast_ma)
                  | SELL \<Rightarrow>
                      Inr (nf_less (Num (close bar)) slow_ma \<and> nf_less fast_ma slow_ma)))
        | _ \<Rightarrow> Inr False)"

definition check_breakout_strength ::
  "ultra_config \<Rightarrow> real \<Rightarrow> real \<Rightarrow> real \<Rightarrow> signal_type \<Rightarrow> bool" where
  "check_breakout_strength cfg current_price high_level low_level sig =
     (if \<not> use_breakout_strength cfg then True
      else
        let box_range = high_level - low_level;
            min_breakout = box_range * min_breakout_strength cfg
        in case sig of
             BUY \<Rightarrow> current_price - high_level \<ge> min_breakout
           | SELL \<Rightarrow> low_level - current_price \<ge> min_breakout)"

definition check_volume :: "ultra_config \<Rightarrow> bar list \<Rightarrow> nat \<Rightarrow> error + bool" where
  "check_volume cfg df idx =
     (if idx < 20 then Inr True
      else
        case iloc df (int idx) of
          Inl e \<Rightarrow> Inl e
        | Inr bar \<Rightarrow>
            (case pd_mean (map tick_volume (slice df (idx - 20) idx)) of
               Num avg_volume \<Rightarrow> Inr (tick_volume bar > avg_volume * volume_multiplier cfg)
             | NaN \<Rightarrow> Inr False))"

subsection \<open>Signal, levels and trade lifecycle\<close>

text \<open>
  \<open>detect_breakout\<close> with all filters: the signal and the rejection counters. The first
  filter that rejects is charged and ends the evaluation.
\<close>

definition u_detect_breakout ::
  "ultra_config \<Rightarrow> bar list \<Rightarrow> rejections \<Rightarrow> nat \<Rightarrow> real \<Rightarrow> real
     \<Rightarrow> error + (signal_type option \<times> rejections)" where
  "u_detect_breakout cfg df rj current_idx high_level low_level =
     (if current_idx < 1 then Inr (None, rj)
      else
        case iloc df (int current_idx) of
          Inl e \<Rightarrow> Inl e
        | Inr current_bar \<Rightarrow>
        (case iloc df (int current_idx - 1) of
          Inl e \<Rightarrow> Inl e
        | Inr previous_bar \<Rightarrow>
        let current_price = close current_bar;
            previous_price = close previous_bar;
            current_time = time current_bar;
            signal = (if previous_price \<le> high_level \<and> current_price > high_level
                      then Some BUY
                      else if previous_price \<ge> low_level \<and> current_price < low_level
                      then Some SELL
                      else None)
        in
        case signal of
          None \<Rightarrow> Inr (None, rj)
        | Some sig \<Rightarrow>
        (case check_volume cfg df current_idx of
          Inl e \<Rightarrow> Inl e
        | Inr vol_ok \<Rightarrow>
        if \<not> vol_ok then Inr (None, rj\<lparr>rj_volume := rj_volume rj + 1\<rparr>)
        else
        (case check_trend cfg df current_idx sig of
          Inl e \<Rightarrow> Inl e
        | Inr trend_ok \<Rightarrow>
        if \<not> trend_ok then Inr (None, rj\<lparr>rj_trend := rj_trend rj + 1\<rparr>)
        else if \<not> check_breakout_strength cfg current_price high_level low_level sig
        then Inr (None, rj\<lparr>rj_strength := rj_strength rj + 1\<rparr>)
        else if \<not> check_rsi_filter cfg df current_idx sig
        then Inr (None, rj\<lparr>rj_rsi := rj_rsi rj + 1\<rparr>)
        else if \<not> check_consolidation_quality cfg df high_level low_level current_idx
        then Inr (None, rj\<lparr>rj_quality := rj_quality rj + 1\<rparr>)
        else if \<not> check_time_filter cfg current_time
        then Inr (None, rj\<lparr>rj_time := rj_time rj + 1\<rparr>)
        else
        (case check_false_breakout cfg df current_idx high_level low_level sig of
          Inl e \<Rightarrow> Inl e
        | Inr confirmed \<Rightarrow>
        if \<not> confirmed then Inr (None, rj\<lparr>rj_false_breakout := rj_false_breakout rj + 1\<rparr>)
        else
        (case check_mtf_confirmation cfg df current_idx sig of
          Inl e \<Rightarrow> Inl e
        | Inr mtf_ok \<Rightarrow>
        if \<not> mtf_ok then Inr (None, rj\<lparr>rj_mtf := rj_mtf rj + 1\<rparr>)
        else Inr (Some sig, rj)))))))"

text \<open>\<open>calculate_tp_sl_box\<close>: returns \<open>(take_profit, stop_loss)\<close>.\<close>

definition calculate_tp_sl_box ::
  "ultra_config \<Rightarrow> real \<Rightarrow> signal_type \<Rightarrow> real \<Rightarrow> real \<times> real" where
  "calculate_tp_sl_box cfg entry_price sig box_range =
     (let sl_multiplier = 1.2 in
      case sig of
        BUY \<Rightarrow>
          let stop_loss = entry_price - (box_range * sl_multiplier);
              risk = entry_price - stop_loss;
              take_profit = entry_price + (risk * risk_reward_ratio cfg)
          in (take_profit, stop_loss)
      | SELL \<Rightarrow>
          let stop_loss = entry_price + (box_range * sl_multiplier);
              risk = stop_loss - entry_price;
              take_profit = entry_price - (risk * risk_reward_ratio cfg)
          in (take_profit, stop_loss))"

text \<open>\<open>calculate_tp_sl\<close> of the ultra engine: the levels are NaN when the ATR is.\<close>

definition u_calculate_tp_sl ::
  "ultra_config \<Rightarrow> bar list \<Rightarrow> nat \<Rightarrow> real \<Rightarrow> signal_type \<Rightarrow> real \<Rightarrow> nf \<times> nf" where
  "u_calculate_tp_sl cfg df idx entry_price sig box_range =
     (let box = (case calculate_tp_sl_box cfg entry_price sig box_range of
                   (tp, sl) \<Rightarrow> (Num tp, Num sl))
      in if use_atr_stops cfg then
           (case calculate_atr df (atr_period cfg) idx of
              None \<Rightarrow> box
            | Some NaN \<Rightarrow> (NaN, NaN)
            | Some (Num atr) \<Rightarrow>
                let stop_distance = atr * atr_multiplier cfg in
                (case sig of
                   BUY \<Rightarrow>
                     (Num (entry_price + (stop_distance * risk_reward_ratio cfg)),
                      Num (entry_price - stop_distance))
                 | SELL \<Rightarrow>
                     (Num (entry_price - (stop_distance * risk_reward_ratio cfg)),
                      Num (entry_price + stop_distance))))
         else box)"

definition u_open_trade ::
  "ultra_config \<Rightarrow> u_state \<Rightarrow> signal_type \<Rightarrow> real \<Rightarrow> nat \<Rightarrow> nf \<Rightarrow> nf \<Rightarrow> u_state" where
  "u_open_trade cfg s sig entry_price entry_time take_profit stop_loss =
     s\<lparr>u_current_trade :=
         Some \<lparr>uct_type = sig, uct_entry_price = entry_price, uct_entry_time = entry_time,
               uct_take_profit = take_profit, uct_stop_loss = stop_loss,
               uct_lot_size = lot_size cfg,
               uct_trailing_stop = (if use_trailing_stop cfg then Some stop_loss else None)\<rparr>,
       u_in_position := True,
       highest_price_in_trade := Some entry_price,
       lowest_price_in_trade := Some entry_price\<rparr>"

text \<open>
  \<open>update_trailing_stop\<close>. Subscripting a missing trade and comparing a float with
  \<open>None\<close> are a \<open>TypeError\<close>.
\<close>

definition update_trailing_stop ::
  "ultra_config \<Rightarrow> u_state \<Rightarrow> real \<Rightarrow> real \<Rightarrow> error + u_state" where
  "update_trailing_stop cfg s current_high current_low =
     (if \<not> use_trailing_stop cfg \<or> \<not> u_in_position s then Inr s
      else
        case u_current_trade s of
          None \<Rightarrow> Inl TypeError
        | Some ct \<Rightarrow>
            let entry = uct_entry_price ct;
                trail_distance = entry * (trailing_stop_pct cfg / 100)
            in
            (case uct_type ct of
               BUY \<Rightarrow>
                 (case highest_price_in_trade s of
                    None \<Rightarrow> Inl TypeError
                  | Some highest \<Rightarrow>
                      if current_high > highest then
                        (let new_stop = current_high - trail_distance in
                         case uct_trailing_stop ct of
                           None \<Rightarrow> Inl TypeError
                         | Some ts \<Rightarrow>
                             if nf_less ts (Num new_stop)
                             then Inr (s\<lparr>highest_price_in_trade := Some current_high,
                                         u_current_trade :=
                                           Some (ct\<lparr>uct_trailing_stop := Some (Num new_stop)\<rparr>)\<rparr>)
                             else Inr (s\<lparr>highest_price_in_trade := Some current_high\<rparr>))
                      else Inr s)
             | SELL \<Rightarrow>
                 (case lowest_price_in_trade s of
                    None \<Rightarrow> Inl TypeError
                  | Some lowest \<Rightarrow>
                      if current_low < lowest then
                        (let new_stop = current_low + trail_distance in
                         case uct_trailing_stop ct of
                           None \<Rightarrow> Inl TypeError
                         | Some ts \<Rightarrow>
                             if nf_less (Num new_stop) ts
                             then Inr (s\<lparr>lowest_price_in_trade := Some current_low,
                                         u_current_trade :=
                                           Some (ct\<lparr>uct_trailing_stop := Some (Num new_stop)\<rparr>)\<rparr>)
                             else Inr (s\<lparr>lowest_price_in_trade := Some current_low\<rparr>))
                      else Inr s)))"

text \<open>
  \<open>check_trade_exit\<close> of the ultra engine: the state with the trailing stop updated, and
  the exit price and reason when the trade is to be closed.
\<close>

definition u_check_trade_exit ::
  "ultra_config \<Rightarrow> u_state \<Rightarrow> bar \<Rightarrow> error + (u_state \<times> (real \<times> exit_reason) option)" where
  "u_check_trade_exit cfg s current_bar =
     (if \<not> u_in_position s \<or> u_current_trade s = None then Inr (s, None)
      else
        case update_trailing_stop cfg s (high current_bar) (low current_bar) of
          Inl e \<Rightarrow> Inl e
        | Inr s' \<Rightarrow>
            (case u_current_trade s' of
               None \<Rightarrow> Inl TypeError
             | Some ct \<Rightarrow>
                 let tp = uct_take_profit ct;
                     sl = (if use_trailing_stop cfg then uct_trailing_stop ct
                           else Some (uct_stop_loss ct));
                     sl_reason = (if use_trailing_stop cfg then TSL else SL)
                 in
                 (case uct_type ct of
                    BUY \<Rightarrow>
                      (case reached_up (high current_bar) tp of
                         Some p \<Rightarrow> Inr (s', Some (p, TP))
                       | None \<Rightarrow>
                           (case sl of
                              None \<Rightarrow> Inl TypeError
                            | Some lv \<Rightarrow>
                                (case reached_down (low current_bar) lv of
                                   Some p \<Rightarrow> Inr (s', Some (p, sl_reason))
                                 | None \<Rightarrow> Inr (s', None))))
                  | SELL \<Rightarrow>
                      (case reached_down (low current_bar) tp of
                         Some p \<Rightarrow> Inr (s', Some (p, TP))
                       | None \<Rightarrow>
                           (case sl of
                              None \<Rightarrow> Inl TypeError
                            | Some lv \<Rightarrow>
                                (case reached_up (high current_bar) lv of
                                   Some p \<Rightarrow> Inr (s', Some (p, sl_reason))
                                 | None \<Rightarrow> Inr (s', None)))))))"

definition u_close_trade ::
  "ultra_config \<Rightarrow> u_state \<Rightarrow> real \<Rightarrow> nat \<Rightarrow> exit_reason \<Rightarrow> error + u_state" where
  "u_close_trade cfg s exit_price exit_time reason =
     (if \<not> u_in_position s then Inr s
      else
        case u_current_trade s of
          None \<Rightarrow> Inl TypeError
        | Some trade \<Rightarrow>
            let points = (case uct_type trade of
                            BUY \<Rightarrow> exit_price - uct_entry_price trade
                          | SELL \<Rightarrow> uct_entry_price trade - exit_price);
                profit = points * lot_size cfg * 100;
                balance' = u_balance s + profit;
                trade_rec = \<lparr>utr_entry_time = uct_entry_time trade, utr_exit_time = exit_time,
                             utr_type = uct_type trade,
                             utr_entry_price = uct_entry_price trade,
                             utr_exit_price = exit_price,
                             utr_take_profit = uct_take_profit trade,
                             utr_stop_loss = uct_stop_loss trade, utr_points = points,
                             utr_profit = profit, utr_balance = balance',
                             utr_exit_reason = reason, utr_win = (profit > 0)\<rparr>
            in Inr (s\<lparr>u_balance := balance', u_trades := u_trades s @ [trade_rec],
                      u_in_position := False, u_current_trade := None,
                      highest_price_in_trade := None, lowest_price_in_trade := None\<rparr>))"

subsection \<open>The replay\<close>

definition u_reset :: "ultra_config \<Rightarrow> u_state \<Rightarrow> u_state" where
  "u_reset cfg s =
     s\<lparr>u_balance := initial_balance cfg, u_in_position := False, u_current_trade := None,
       u_trades := [], u_equity_curve := [], u_daily_trades_count := Map.empty,
       rejected_trades := \<lparr>rj_trend = 0, rj_strength = 0, rj_volume = 0, rj_rsi = 0,
                            rj_quality = 0, rj_time = 0, rj_false_breakout = 0, rj_mtf = 0\<rparr>\<rparr>"

text \<open>The attributes of a new \<open>UltraBacktester\<close> object.\<close>

definition u_init :: "ultra_config \<Rightarrow> u_state" where
  "u_init cfg =
     \<lparr>u_balance = initial_balance cfg, u_in_position = False, u_current_trade = None,
      highest_price_in_trade = None, lowest_price_in_trade = None,
      u_trades = [], u_equity_curve = [], u_daily_trades_count = Map.empty,
      rejected_trades = \<lparr>rj_trend = 0, rj_strength = 0, rj_volume = 0, rj_rsi = 0,
                           rj_quality = 0, rj_time = 0, rj_false_breakout = 0, rj_mtf = 0\<rparr>\<rparr>"

definition u_exit_phase :: "ultra_config \<Rightarrow> u_state \<Rightarrow> bar \<Rightarrow> error + u_state" where
  "u_exit_phase cfg s current_bar =
     (if u_in_position s then
        (case u_check_trade_exit cfg s current_bar of
           Inl e \<Rightarrow> Inl e
         | Inr (s', None) \<Rightarrow> Inr s'
         | Inr (s', Some (exit_price, reason)) \<Rightarrow>
             u_close_trade cfg s' exit_price (time current_bar) reason)
      else Inr s)"

definition u_record_equity :: "u_state \<Rightarrow> nat \<Rightarrow> u_state" where
  "u_record_equity s current_time =
     s\<lparr>u_equity_curve := u_equity_curve s @
          [\<lparr>eq_time = current_time, eq_balance = u_balance s,
            eq_in_position = u_in_position s\<rparr>]\<rparr>"

definition u_entry_phase ::
  "ultra_config \<Rightarrow> bar list \<Rightarrow> u_state \<Rightarrow> nat \<Rightarrow> bar \<Rightarrow> error + u_state" where
  "u_entry_phase cfg df s i current_bar =
     (let current_time = time current_bar; current_price = close current_bar in
      if u_in_position s then Inr s
      else if \<not> can_trade_today cfg (u_daily_trades_count s) current_time then Inr s
      else
        case box_levels (identify_consolidation cfg df i) of
          None \<Rightarrow> Inr s
        | Some (high_level, low_level, box_range) \<Rightarrow>
            (case u_detect_breakout cfg df (rejected_trades s) i high_level low_level of
               Inl e \<Rightarrow> Inl e
             | Inr (None, rj) \<Rightarrow> Inr (s\<lparr>rejected_trades := rj\<rparr>)
             | Inr (Some sig, rj) \<Rightarrow>
                 let (tp, sl) = u_calculate_tp_sl cfg df i current_price sig box_range;
                     s' = u_open_trade cfg (s\<lparr>rejected_trades := rj\<rparr>) sig current_price
                            current_time tp sl
                 in Inr (s'\<lparr>u_daily_trades_count :=
                             increment_daily_trades (u_daily_trades_count s') current_time\<rparr>)))"

text \<open>One iteration of the main loop of the ultra \<open>run_backtest\<close>, at bar \<open>i\<close>.\<close>

definition u_step :: "ultra_config \<Rightarrow> bar list \<Rightarrow> u_state \<Rightarrow> nat \<Rightarrow> error + u_state" where
  "u_step cfg df s i =
     (case iloc df (int i) of
        Inl e \<Rightarrow> Inl e
      | Inr current_bar \<Rightarrow>
          (case u_exit_phase cfg s current_bar of
             Inl e \<Rightarrow> Inl e
           | Inr s1 \<Rightarrow>
               u_entry_phase cfg df (u_record_equity s1 (time current_bar)) i current_bar))"

fun u_run_loop ::
  "ultra_config \<Rightarrow> bar list \<Rightarrow> u_state \<Rightarrow> nat list \<Rightarrow> error + u_state" where
  "u_run_loop cfg df s [] = Inr s"
| "u_run_loop cfg df s (i # is) =
     (case u_step cfg df s i of Inl e \<Rightarrow> Inl e | Inr s' \<Rightarrow> u_run_loop cfg df s' is)"

text \<open>The defaults of \<open>start_idx\<close> and \<open>end_idx\<close>; the default end may be negative.\<close>

definition u_start_of :: "ultra_config \<Rightarrow> nat option \<Rightarrow> nat" where
  "u_start_of cfg start_opt =
     (case start_opt of
        None \<Rightarrow> max (consolidation_periods cfg) (max (trend_period cfg) (higher_tf_period cfg))
      | Some a \<Rightarrow> a)"

definition u_end_of :: "ultra_config \<Rightarrow> bar list \<Rightarrow> nat option \<Rightarrow> int" where
  "u_end_of cfg df end_opt =
     (case end_opt of
        None \<Rightarrow> (if use_false_breakout_filter cfg
                  then int (length df) - int (confirmation_bars cfg)
                  else int (length df))
      | Some b \<Rightarrow> int b)"

text \<open>\<open>range(start_idx, end_idx)\<close>.\<close>

definition replay_indices :: "ultra_config \<Rightarrow> bar list \<Rightarrow> nat option \<Rightarrow> nat option \<Rightarrow> nat list" where
  "replay_indices cfg df start_opt end_opt =
     [u_start_of cfg start_opt..<nat (u_end_of cfg df end_opt)]"

definition u_close_remaining ::
  "ultra_config \<Rightarrow> bar list \<Rightarrow> u_state \<Rightarrow> int \<Rightarrow> error + u_state" where
  "u_close_remaining cfg df s end_idx =
     (if u_in_position s then
        (case iloc df (end_idx - 1) of
           Inl e \<Rightarrow> Inl e
         | Inr last_bar \<Rightarrow> u_close_trade cfg s (close last_bar) (time last_bar) END_OF_DATA)
      else Inr s)"

text \<open>
  The state of the object after the ultra \<open>run_backtest\<close>, from which \<open>get_results\<close>
  computes the dictionary returned as in the basic engine. With \<open>verbose\<close> the progress
  lines read \<open>df.iloc[start_idx]\<close> and \<open>df.iloc[end_idx-1]\<close> before the loop.
\<close>

definition u_run_state ::
  "ultra_config \<Rightarrow> u_state \<Rightarrow> bar list \<Rightarrow> nat option \<Rightarrow> nat option \<Rightarrow> bool
     \<Rightarrow> error + u_state" where
  "u_run_state cfg s0 df start_opt end_opt verbose =
     (let start_idx = u_start_of cfg start_opt;
          end_idx = u_end_of cfg df end_opt
      in case (if verbose
               then (case iloc df (int start_idx) of
                       Inl e \<Rightarrow> Inl e
                     | Inr _ \<Rightarrow> (case iloc df (end_idx - 1) of
                                   Inl e \<Rightarrow> Inl e | Inr _ \<Rightarrow> Inr ()))
               else Inr ()) of
           Inl e \<Rightarrow> Inl e
         | Inr _ \<Rightarrow>
             (case u_run_loop cfg df (u_reset cfg s0) (replay_indices cfg df start_opt end_opt) of
                Inl e \<Rightarrow> Inl e
              | Inr s \<Rightarrow> u_close_remaining cfg df s end_idx))"

section \<open>Example runs\<close>

text \<open>The default parameters of \<open>Backtester\<close>.\<close>

definition ex_cfg :: config where
  "ex_cfg = \<lparr>initial_balance = 10000, lot_size = 0.01, risk_reward_ratio = 2,
             consolidation_periods = 20, breakout_threshold = 0.0015, max_daily_trades = 5\<rparr>"

text \<open>
  The scenario of a BUY trade with take-profit 110 and stop-loss 95, and a bar that
  touches both levels.
\<close>

definition tp_trade :: open_trade where
  "tp_trade = \<lparr>ct_type = BUY, ct_entry_price = 100, ct_entry_time = 0,
                ct_take_profit = 110, ct_stop_loss = 95, ct_lot_size = 0.01\<rparr>"

definition tp_state :: state where
  "tp_state = \<lparr>balance = 10000, in_position = True, current_trade = Some tp_trade,
     trades = [], equity_curve = [], daily_trades_count = Map.empty\<rparr>"

definition tp_bars :: "bar list" where
  "tp_bars = [\<lparr>time = 1, open_price = 100, high = 105, low = 96, close = 101, tick_volume = 1\<rparr>,
              \<lparr>time = 2, open_price = 101, high = 111, low = 94, close = 100, tick_volume = 1\<rparr>]"

text \<open>
  A run with a lookback of two bars and one trade per day: bars 0 and 1 form a box,
  bar 2 breaks out of it, bar 3 reaches the take-profit, bars 4 and 5 form a second
  box and bar 6 breaks out of it on the same day.
\<close>

definition box_cfg :: config where
  "box_cfg = \<lparr>initial_balance = 10000, lot_size = 0.01, risk_reward_ratio = 2,
              consolidation_periods = 2, breakout_threshold = 0.01, max_daily_trades = 1\<rparr>"

definition box_bars :: "bar list" where
  "box_bars =
     [\<lparr>time = 0, open_price = 100.1, high = 100.5, low = 100, close = 100.2, tick_volume = 1\<rparr>,
      \<lparr>time = 1, open_price = 100.2, high = 100.5, low = 100, close = 100.4, tick_volume = 1\<rparr>,
      \<lparr>time = 2, open_price = 100.4, high = 101.2, low = 100.3, close = 101, tick_volume = 1\<rparr>,
      \<lparr>time = 3, open_price = 101, high = 102.3, low = 101, close = 102.2, tick_volume = 1\<rparr>,
      \<lparr>time = 4, open_price = 102.2, high = 102.5, low = 102, close = 102.2, tick_volume = 1\<rparr>,
      \<lparr>time = 5, open_price = 102.2, high = 102.5, low = 102, close = 102.4, tick_volume = 1\<rparr>,
      \<lparr>time = 6, open_price = 102.4, high = 103, low = 102.4, close = 103, tick_volume = 1\<rparr>]"

text \<open>The final state and the results of the run over \<open>box_bars\<close>.\<close>

definition box_final :: state where
  "box_final =
     \<lparr>balance = 10001.2, in_position = False, current_trade = None,
      trades = [\<lparr>tr_entry_time = 2, tr_exit_time = 3, tr_type = BUY, tr_entry_price = 101,
                 tr_exit_price = 102.2, tr_take_profit = 102.2, tr_stop_loss = 100.4,
                 tr_points = 1.2, tr_profit = 1.2, tr_balance = 10001.2,
                 tr_exit_reason = TP, tr_win = True\<rparr>],
      equity_curve = [\<lparr>eq_time = 2, eq_balance = 10000, eq_in_position = False\<rparr>,
                      \<lparr>eq_time = 3, eq_balance = 10001.2, eq_in_position = False\<rparr>,
                      \<lparr>eq_time = 4, eq_balance = 10001.2, eq_in_position = False\<rparr>,
                      \<lparr>eq_time = 5, eq_balance = 10001.2, eq_in_position = False\<rparr>,
                      \<lparr>eq_time = 6, eq_balance = 10001.2, eq_in_position = False\<rparr>],
      daily_trades_count = [0 \<mapsto> 1]\<rparr>"

definition box_results :: results where
  "box_results =
     \<lparr>r_total_trades = 1, r_winning_trades = 1, r_losing_trades = 0, r_win_rate = 100,
      r_total_profit = 1.2, r_total_loss = 0, r_net_profit = 1.2, r_return_pct = Fin 0.012,
      r_max_drawdown = Num 0, r_max_drawdown_pct = Fin 0, r_avg_win = 1.2, r_avg_loss = 0,
      r_profit_factor = PInf, r_largest_win = 1.2, r_largest_loss = 0,
      r_final_balance = 10001.2, r_initial_balance = 10000\<rparr>"

text \<open>The replay of bars 0 and 1 only: no trade.\<close>

definition idle_final :: state where
  "idle_final =
     \<lparr>balance = 10000, in_position = False, current_trade = None, trades = [],
      equity_curve = [\<lparr>eq_time = 0, eq_balance = 10000, eq_in_position = False\<rparr>,
                      \<lparr>eq_time = 1, eq_balance = 10000, eq_in_position = False\<rparr>],
      daily_trades_count = Map.empty\<rparr>"



text \<open>A series whose times decrease.\<close>

definition bad_bars :: "bar list" where
  "bad_bars =
     [\<lparr>time = 2, open_price = 100.1, high = 100.5, low = 100, close = 100.2, tick_volume = 1\<rparr>,
      \<lparr>time = 1, open_price = 100.2, high = 100.5, low = 100, close = 100.4, tick_volume = 1\<rparr>,
      \<lparr>time = 0, open_price = 100.4, high = 101.2, low = 100.3, close = 101, tick_volume = 1\<rparr>]"

definition bad_final :: state where
  "bad_final =
     \<lparr>balance = 10000, in_position = False, current_trade = None,
      trades = [\<lparr>tr_entry_time = 0, tr_exit_time = 0, tr_type = BUY, tr_entry_price = 101,
                 tr_exit_price = 101, tr_take_profit = 102.2, tr_stop_loss = 100.4,
                 tr_points = 0, tr_profit = 0, tr_balance = 10000,
                 tr_exit_reason = END_OF_DATA, tr_win = False\<rparr>],
      equity_curve = [\<lparr>eq_time = 0, eq_balance = 10000, eq_in_position = False\<rparr>],
      daily_trades_count = [0 \<mapsto> 1]\<rparr>"

text \<open>The default parameters of \<open>UltraBacktester\<close>.\<close>

definition ultra_cfg :: ultra_config where
  "ultra_cfg =
     \<lparr>initial_balance = 10000, lot_size = 0.01, risk_reward_ratio = 2,
      consolidation_periods = 20, breakout_threshold = 0.0015, max_daily_trades = 5,
      use_trend_filter = True, trend_period = 50,
      use_breakout_strength = True, min_breakout_strength = 0.15,
      use_atr_stops = True, atr_period = 14, atr_multiplier = 2,
      volume_multiplier = 1.1,
      use_rsi_filter = True, rsi_period = 14, rsi_overbought = 70, rsi_oversold = 30,
      use_consolidation_quality = True, min_touches = 3,
      use_time_filter = True, trading_start_hour = 2, trading_end_hour = 20,
      use_trailing_stop = False, trailing_stop_pct = 0.5,
      use_false_breakout_filter = True, confirmation_bars = 1,
      use_mtf_confirmation = True, higher_tf_period = 200\<rparr>"



section \<open>Auxiliary facts about the basic engine\<close>

lemma iloc_nat: "i < length df \<Longrightarrow> iloc df (int i) = Inr (df ! i)"
  by (simp add: iloc_def)

lemma iloc_pred: "0 < i \<Longrightarrow> i \<le> length df \<Longrightarrow> iloc df (int i - 1) = Inr (df ! (i - 1))"
  by (auto simp: iloc_def Let_def nat_diff_distrib')

lemma detect_breakout_total:
  assumes "i < length df"
  shows "\<exists>r. detect_breakout df i h l = Inr r"
proof (cases "i < 1")
  case True
  then show ?thesis by (simp add: detect_breakout_def)
next
  case False
  then have "iloc df (int i - 1) = Inr (df ! (i - 1))"
    using assms by (intro iloc_pred) auto
  then show ?thesis
    using False assms by (simp add: detect_breakout_def iloc_nat Let_def)
qed

lemma entry_phase_cases:
  assumes "i < length df"
  shows "entry_phase cfg df s i b = Inr s
         \<or> (\<not> in_position s \<and> can_trade_today cfg (daily_trades_count s) (time b)
            \<and> (\<exists>sig tp sl.
                 entry_phase cfg df s i b =
                   Inr (s\<lparr>current_trade := Some \<lparr>ct_type = sig, ct_entry_price = close b,
                             ct_entry_time = time b, ct_take_profit = tp,
                             ct_stop_loss = sl, ct_lot_size = lot_size cfg\<rparr>,
                           in_position := True,
                           daily_trades_count :=
                             increment_daily_trades (daily_trades_count s) (time b)\<rparr>)))"
proof (cases "in_position s \<or> \<not> can_trade_today cfg (daily_trades_count s) (time b)")
  case True
  then show ?thesis by (auto simp: entry_phase_def Let_def)
next
  case free: False
  show ?thesis
  proof (cases "box_levels (identify_consolidation cfg df i)")
    case None
    then show ?thesis using free by (simp add: entry_phase_def Let_def)
  next
    case (Some lv)
    obtain h l r where lv: "lv = (h, l, r)" by (cases lv)
    obtain res where res: "detect_breakout df i h l = Inr res"
      using detect_breakout_total [OF assms] by blast
    show ?thesis
    proof (cases res)
      case None
      then show ?thesis using free Some lv res by (simp add: entry_phase_def Let_def)
    next
      case (Some sig)
      obtain tp sl where ts: "calculate_tp_sl cfg (close b) sig r = (tp, sl)"
        by (cases "calculate_tp_sl cfg (close b) sig r")
      have "entry_phase cfg df s i b =
              Inr (s\<lparr>current_trade := Some \<lparr>ct_type = sig, ct_entry_price = close b,
                             ct_entry_time = time b, ct_take_profit = tp,
                             ct_stop_loss = sl, ct_lot_size = lot_size cfg\<rparr>,
                           in_position := True,
                           daily_trades_count :=
                             increment_daily_trades (daily_trades_count s) (time b)\<rparr>)"
        using free \<open>box_levels (identify_consolidation cfg df i) = Some lv\<close> lv res Some ts
        by (simp add: entry_phase_def Let_def open_trade_def)
      then show ?thesis using free by blast
    qed
  qed
qed

lemma entry_phase_frame:
  assumes "i < length df"
  shows "\<exists>s'. entry_phase cfg df s i b = Inr s' \<and> trades s' = trades s
           \<and> balance s' = balance s \<and> equity_curve s' = equity_curve s"
  using entry_phase_cases [OF assms, of cfg s b] by auto


lemma run_loop_append:
  "run_loop cfg df s (xs @ ys) =
     (case run_loop cfg df s xs of Inl e \<Rightarrow> Inl e | Inr s' \<Rightarrow> run_loop cfg df s' ys)"
  by (induction xs arbitrary: s) (auto split: sum.splits)

lemma check_trade_exit_record_equity [simp]:
  "check_trade_exit (record_equity s t) b = check_trade_exit s b"
  by (simp add: check_trade_exit_def record_equity_def)

lemma step_hold:
  assumes "i < length df" "in_position s" "check_trade_exit s (df ! i) = None"
  shows "step cfg df s i = Inr (record_equity s (time (df ! i)))"
  using assms
  by (simp add: step_def iloc_nat exit_phase_def entry_phase_def record_equity_def Let_def)

lemma run_loop_hold:
  assumes "i + n \<le> length df" "in_position s"
    and "\<forall>k. i \<le> k \<and> k < i + n \<longrightarrow> check_trade_exit s (df ! k) = None"
  shows "\<exists>s'. run_loop cfg df s [i..<i + n] = Inr s' \<and> in_position s'
           \<and> current_trade s' = current_trade s \<and> trades s' = trades s
           \<and> balance s' = balance s"
  using assms
proof (induction n arbitrary: i s)
  case 0
  then show ?case by simp
next
  case (Suc n)
  let ?s1 = "record_equity s (time (df ! i))"
  have st: "step cfg df s i = Inr ?s1"
    using Suc.prems by (intro step_hold) auto
  have up: "[i..<i + Suc n] = i # [Suc i..<Suc i + n]"
    by (simp add: upt_conv_Cons)
  have "\<exists>s'. run_loop cfg df ?s1 [Suc i..<Suc i + n] = Inr s' \<and> in_position s'
           \<and> current_trade s' = current_trade ?s1 \<and> trades s' = trades ?s1
           \<and> balance s' = balance ?s1"
  proof (rule Suc.IH)
    show "Suc i + n \<le> length df" using Suc.prems by simp
    show "in_position ?s1" using Suc.prems by (simp add: record_equity_def)
    show "\<forall>k. Suc i \<le> k \<and> k < Suc i + n \<longrightarrow> check_trade_exit ?s1 (df ! k) = None"
      using Suc.prems by simp
  qed
  then show ?case
    unfolding up by (simp add: st record_equity_def)
qed

lemma close_trade_effect:
  assumes "in_position s" "current_trade s = Some ct"
  shows "\<exists>s1 tr. close_trade cfg s p t r = Inr s1 \<and> trades s1 = trades s @ [tr]
           \<and> tr_exit_reason tr = r \<and> tr_exit_price tr = p \<and> tr_exit_time tr = t
           \<and> tr_entry_time tr = ct_entry_time ct
           \<and> tr_profit tr =
               (case ct_type ct of BUY \<Rightarrow> p - ct_entry_price ct
                                 | SELL \<Rightarrow> ct_entry_price ct - p) * lot_size cfg * 100
           \<and> balance s1 = balance s + tr_profit tr
           \<and> \<not> in_position s1 \<and> current_trade s1 = None
           \<and> equity_curve s1 = equity_curve s
           \<and> daily_trades_count s1 = daily_trades_count s"
  using assms by (simp add: close_trade_def Let_def)

lemma step_take_profit:
  assumes "j < length df" "in_position s" "current_trade s = Some ct"
    and "(ct_type ct = BUY \<and> ct_take_profit ct \<le> high (df ! j))
         \<or> (ct_type ct = SELL \<and> low (df ! j) \<le> ct_take_profit ct)"
  shows "\<exists>s' tr. step cfg df s j = Inr s' \<and> trades s' = trades s @ [tr]
           \<and> tr_exit_reason tr = TP \<and> tr_exit_price tr = ct_take_profit ct
           \<and> tr_exit_time tr = time (df ! j)
           \<and> tr_profit tr =
               (case ct_type ct of BUY \<Rightarrow> ct_take_profit ct - ct_entry_price ct
                                 | SELL \<Rightarrow> ct_entry_price ct - ct_take_profit ct)
               * lot_size cfg * 100
           \<and> balance s' = balance s + tr_profit tr"
proof -
  have ce: "check_trade_exit s (df ! j) = Some (ct_take_profit ct, TP)"
    using assms by (auto simp: check_trade_exit_def Let_def)
  obtain s1 tr where s1: "close_trade cfg s (ct_take_profit ct) (time (df ! j)) TP = Inr s1"
    and tr: "trades s1 = trades s @ [tr]" "tr_exit_reason tr = TP"
      "tr_exit_price tr = ct_take_profit ct" "tr_exit_time tr = time (df ! j)"
      "tr_profit tr =
               (case ct_type ct of BUY \<Rightarrow> ct_take_profit ct - ct_entry_price ct
                                 | SELL \<Rightarrow> ct_entry_price ct - ct_take_profit ct)
               * lot_size cfg * 100"
      "balance s1 = balance s + tr_profit tr"
    using close_trade_effect [OF assms(2,3)] by blast
  have ex: "exit_phase cfg s (df ! j) = Inr s1"
    using assms(2) ce s1 by (simp add: exit_phase_def)
  obtain s' where s': "entry_phase cfg df (record_equity s1 (time (df ! j))) j (df ! j) = Inr s'"
     "trades s' = trades (record_equity s1 (time (df ! j)))"
     "balance s' = balance (record_equity s1 (time (df ! j)))"
    using entry_phase_frame [OF assms(1)] by blast
  have "step cfg df s j = Inr s'"
    using assms(1) ex s'(1) by (simp add: step_def iloc_nat)
  then show ?thesis
    using s'(2,3) tr by (simp add: record_equity_def)
qed






subsection \<open>Invariants of the replay\<close>

lemma check_trade_exit_reason:
  "check_trade_exit s b = Some (p, r) \<Longrightarrow> r \<noteq> END_OF_DATA"
  by (auto simp: check_trade_exit_def Let_def split: if_splits option.splits signal_type.splits)

lemma exit_phase_cases:
  assumes "wf_state s"
  shows "exit_phase cfg s b = Inr s
         \<or> (\<exists>ct p r. in_position s \<and> current_trade s = Some ct \<and> r \<noteq> END_OF_DATA
               \<and> exit_phase cfg s b = close_trade cfg s p (time b) r)"
proof (cases "in_position s")
  case False
  then show ?thesis by (simp add: exit_phase_def)
next
  case True
  then obtain ct where ct: "current_trade s = Some ct"
    using assms by (auto simp: wf_state_def)
  show ?thesis
  proof (cases "check_trade_exit s b")
    case None
    then show ?thesis using True by (simp add: exit_phase_def)
  next
    case (Some pr)
    obtain p r where pr: "pr = (p, r)" by (cases pr)
    have "r \<noteq> END_OF_DATA" using Some pr check_trade_exit_reason by blast
    moreover have "exit_phase cfg s b = close_trade cfg s p (time b) r"
      using True Some pr by (simp add: exit_phase_def)
    ultimately show ?thesis using True ct by blast
  qed
qed

lemma step_effect:
  assumes "i < length df" "wf_state s"
  shows "\<exists>s1 s'. step cfg df s i = Inr s'
     \<and> (s1 = s
        \<or> (\<exists>ct tr. in_position s \<and> current_trade s = Some ct
              \<and> trades s1 = trades s @ [tr] \<and> tr_exit_time tr = time (df ! i)
              \<and> tr_entry_time tr = ct_entry_time ct \<and> tr_exit_reason tr \<noteq> END_OF_DATA
              \<and> balance s1 = balance s + tr_profit tr
              \<and> \<not> in_position s1 \<and> current_trade s1 = None
              \<and> equity_curve s1 = equity_curve s
              \<and> daily_trades_count s1 = daily_trades_count s))
     \<and> (s' = record_equity s1 (time (df ! i))
        \<or> (\<not> in_position s1
            \<and> can_trade_today cfg (daily_trades_count s1) (time (df ! i))
            \<and> (\<exists>ct. ct_entry_time ct = time (df ! i)
                  \<and> s' = (record_equity s1 (time (df ! i)))
                          \<lparr>current_trade := Some ct, in_position := True,
                            daily_trades_count :=
                              increment_daily_trades (daily_trades_count s1) (time (df ! i))\<rparr>)))"
proof -
  let ?b = "df ! i"
  have "\<exists>s1. exit_phase cfg s ?b = Inr s1
     \<and> (s1 = s
        \<or> (\<exists>ct tr. in_position s \<and> current_trade s = Some ct
              \<and> trades s1 = trades s @ [tr] \<and> tr_exit_time tr = time ?b
              \<and> tr_entry_time tr = ct_entry_time ct \<and> tr_exit_reason tr \<noteq> END_OF_DATA
              \<and> balance s1 = balance s + tr_profit tr
              \<and> \<not> in_position s1 \<and> current_trade s1 = None
              \<and> equity_curve s1 = equity_curve s
              \<and> daily_trades_count s1 = daily_trades_count s))"
    using exit_phase_cases [OF assms(2), of cfg ?b]
  proof
    assume "exit_phase cfg s ?b = Inr s"
    then show ?thesis by blast
  next
    assume "\<exists>ct p r. in_position s \<and> current_trade s = Some ct \<and> r \<noteq> END_OF_DATA
               \<and> exit_phase cfg s ?b = close_trade cfg s p (time ?b) r"
    then obtain ct p r where c: "in_position s" "current_trade s = Some ct"
      "r \<noteq> END_OF_DATA" "exit_phase cfg s ?b = close_trade cfg s p (time ?b) r"
      by blast
    from close_trade_effect [OF c(1,2), of cfg p "time ?b" r] c(3,4) c(1,2)
    show ?thesis by metis
  qed
  then obtain s1 where s1: "exit_phase cfg s ?b = Inr s1"
    and alt: "s1 = s
        \<or> (\<exists>ct tr. in_position s \<and> current_trade s = Some ct
              \<and> trades s1 = trades s @ [tr] \<and> tr_exit_time tr = time ?b
              \<and> tr_entry_time tr = ct_entry_time ct \<and> tr_exit_reason tr \<noteq> END_OF_DATA
              \<and> balance s1 = balance s + tr_profit tr
              \<and> \<not> in_position s1 \<and> current_trade s1 = None
              \<and> equity_curve s1 = equity_curve s
              \<and> daily_trades_count s1 = daily_trades_count s)"
    by blast
  let ?s2 = "record_equity s1 (time ?b)"
  have st: "step cfg df s i = entry_phase cfg df ?s2 i ?b"
    using assms(1) s1 by (simp add: step_def iloc_nat)
  have s2: "in_position ?s2 = in_position s1"
    "daily_trades_count ?s2 = daily_trades_count s1"
    by (simp_all add: record_equity_def)
  from entry_phase_cases [OF assms(1), of cfg ?s2 ?b]
  show ?thesis
  proof
    assume "entry_phase cfg df ?s2 i ?b = Inr ?s2"
    then show ?thesis using st alt by metis
  next
    assume "\<not> in_position ?s2 \<and> can_trade_today cfg (daily_trades_count ?s2) (time ?b)
            \<and> (\<exists>sig tp sl. entry_phase cfg df ?s2 i ?b =
                   Inr (?s2\<lparr>current_trade := Some \<lparr>ct_type = sig, ct_entry_price = close ?b,
                             ct_entry_time = time ?b, ct_take_profit = tp,
                             ct_stop_loss = sl, ct_lot_size = lot_size cfg\<rparr>,
                           in_position := True,
                           daily_trades_count :=
                             increment_daily_trades (daily_trades_count ?s2) (time ?b)\<rparr>))"
    then obtain sig tp sl where o: "\<not> in_position s1"
      "can_trade_today cfg (daily_trades_count s1) (time ?b)"
      "entry_phase cfg df ?s2 i ?b =
                   Inr (?s2\<lparr>current_trade := Some \<lparr>ct_type = sig, ct_entry_price = close ?b,
                             ct_entry_time = time ?b, ct_take_profit = tp,
                             ct_stop_loss = sl, ct_lot_size = lot_size cfg\<rparr>,
                           in_position := True,
                           daily_trades_count :=
                             increment_daily_trades (daily_trades_count s1) (time ?b)\<rparr>)"
      unfolding s2 by blast
    define ct where "ct = \<lparr>ct_type = sig, ct_entry_price = close ?b,
                             ct_entry_time = time ?b, ct_take_profit = tp,
                             ct_stop_loss = sl, ct_lot_size = lot_size cfg\<rparr>"
    have "ct_entry_time ct = time ?b" by (simp add: ct_def)
    moreover have "step cfg df s i = Inr (?s2\<lparr>current_trade := Some ct, in_position := True,
                           daily_trades_count :=
                             increment_daily_trades (daily_trades_count s1) (time ?b)\<rparr>)"
      using st o(3) by (simp add: ct_def)
    ultimately show ?thesis using o(1,2) alt by blast
  qed
qed

lemma run_loop_invariant:
  assumes step: "\<And>k s. i \<le> k \<Longrightarrow> k < j \<Longrightarrow> P k s \<Longrightarrow> \<exists>s'. step cfg df s k = Inr s' \<and> P (Suc k) s'"
    and "P i s" and "i \<le> j"
  shows "\<exists>s'. run_loop cfg df s [i..<j] = Inr s' \<and> P j s'"
  using assms(3,1)
proof (induction j rule: dec_induct)
  case base
  then show ?case using assms(2) by simp
next
  case (step n)
  then obtain s1 where s1: "run_loop cfg df s [i..<n] = Inr s1" "P n s1"
    by (metis less_Suc_eq)
  obtain s2 where s2: "step cfg df s1 n = Inr s2" "P (Suc n) s2"
    using step.prems [of n s1] step.hyps s1(2) by auto
  have "[i..<Suc n] = [i..<n] @ [n]" using step.hyps by simp
  then show ?case using s1 s2 by (simp add: run_loop_append)
qed


lemma counted_increment:
  "counted (increment_daily_trades c t) d =
     (if d = date_str t then counted c d + 1 else counted c d)"
  by (simp add: counted_def increment_daily_trades_def)

lemma can_trade_today_counted:
  "can_trade_today cfg c t = (counted c (date_str t) < max_daily_trades cfg)"
  by (simp add: can_trade_today_def counted_def)

lemma core_inv_reset: "core_inv cfg df start start (reset cfg)"
  by (simp add: core_inv_def reset_def wf_state_def opened_on_def counted_def)

lemma core_inv_step:
  assumes "core_inv cfg df start i s" "start \<le> i" "i < length df"
  shows "\<exists>s'. step cfg df s i = Inr s' \<and> core_inv cfg df start (Suc i) s'"
proof -
  have wf: "wf_state s" using assms(1) by (simp add: core_inv_def)
  from step_effect [OF assms(3) wf, of cfg]
  obtain s1 s' where st: "step cfg df s i = Inr s'"
    and a1: "s1 = s
        \<or> (\<exists>ct tr. in_position s \<and> current_trade s = Some ct
              \<and> trades s1 = trades s @ [tr] \<and> tr_exit_time tr = time (df ! i)
              \<and> tr_entry_time tr = ct_entry_time ct \<and> tr_exit_reason tr \<noteq> END_OF_DATA
              \<and> balance s1 = balance s + tr_profit tr
              \<and> \<not> in_position s1 \<and> current_trade s1 = None
              \<and> equity_curve s1 = equity_curve s
              \<and> daily_trades_count s1 = daily_trades_count s)"
    and a2: "s' = record_equity s1 (time (df ! i))
        \<or> (\<not> in_position s1
            \<and> can_trade_today cfg (daily_trades_count s1) (time (df ! i))
            \<and> (\<exists>ct. ct_entry_time ct = time (df ! i)
                  \<and> s' = (record_equity s1 (time (df ! i)))
                          \<lparr>current_trade := Some ct, in_position := True,
                            daily_trades_count :=
                              increment_daily_trades (daily_trades_count s1) (time (df ! i))\<rparr>))"
    by blast
  have i1: "core_inv cfg df start i s1"
    using a1
  proof
    assume "s1 = s" then show ?thesis using assms(1) by simp
  next
    assume "\<exists>ct tr. in_position s \<and> current_trade s = Some ct
              \<and> trades s1 = trades s @ [tr] \<and> tr_exit_time tr = time (df ! i)
              \<and> tr_entry_time tr = ct_entry_time ct \<and> tr_exit_reason tr \<noteq> END_OF_DATA
              \<and> balance s1 = balance s + tr_profit tr
              \<and> \<not> in_position s1 \<and> current_trade s1 = None
              \<and> equity_curve s1 = equity_curve s
              \<and> daily_trades_count s1 = daily_trades_count s"
    then obtain ct tr where c: "in_position s" "current_trade s = Some ct"
      "trades s1 = trades s @ [tr]" "tr_entry_time tr = ct_entry_time ct"
      "balance s1 = balance s + tr_profit tr" "\<not> in_position s1" "current_trade s1 = None"
      "equity_curve s1 = equity_curve s" "daily_trades_count s1 = daily_trades_count s"
      by blast
    have op: "opened_on d s1 = opened_on d s" for d
      using c by (simp add: opened_on_def)
    have ne: "equity_curve s \<noteq> []"
      using assms(1) c(1) by (auto simp: core_inv_def)
    show ?thesis
      using assms(1) c(3,5,6,7,8,9) op ne unfolding core_inv_def wf_state_def
      by simp
  qed
  let ?s2 = "record_equity s1 (time (df ! i))"
  have up: "[start..<Suc i] = [start..<i] @ [i]" using assms(2) by simp
  have op2: "opened_on d ?s2 = opened_on d s1" for d
    by (simp add: opened_on_def record_equity_def)
  have i2: "core_inv cfg df start (Suc i) ?s2"
    using i1 op2 unfolding core_inv_def wf_state_def up
    by (simp add: record_equity_def)
  from a2 show ?thesis
  proof
    assume "s' = ?s2"
    then show ?thesis using st i2 by simp
  next
    assume "\<not> in_position s1
            \<and> can_trade_today cfg (daily_trades_count s1) (time (df ! i))
            \<and> (\<exists>ct. ct_entry_time ct = time (df ! i)
                  \<and> s' = ?s2\<lparr>current_trade := Some ct, in_position := True,
                            daily_trades_count :=
                              increment_daily_trades (daily_trades_count s1) (time (df ! i))\<rparr>)"
    then obtain ct where o: "\<not> in_position s1"
      "counted (daily_trades_count s1) (date_str (time (df ! i))) < max_daily_trades cfg"
      "ct_entry_time ct = time (df ! i)"
      "s' = ?s2\<lparr>current_trade := Some ct, in_position := True,
                            daily_trades_count :=
                              increment_daily_trades (daily_trades_count s1) (time (df ! i))\<rparr>"
      unfolding can_trade_today_counted by blast
    have none: "current_trade s1 = None"
      using i1 o(1) by (simp add: core_inv_def wf_state_def)
    have op3: "opened_on d s' =
                 (if d = date_str (time (df ! i)) then opened_on d s1 + 1 else opened_on d s1)" for d
      using none o(3) by (auto simp: o(4) opened_on_def record_equity_def)
    have f: "trades s' = trades ?s2" "balance s' = balance ?s2"
      "equity_curve s' = equity_curve ?s2" "in_position s'" "current_trade s' = Some ct"
      "daily_trades_count s' =
         increment_daily_trades (daily_trades_count s1) (time (df ! i))"
      by (simp_all add: o(4))
    have d2: "daily_trades_count ?s2 = daily_trades_count s1"
      by (simp add: record_equity_def)
    have c1: "wf_state s'" by (simp add: wf_state_def f)
    have c2: "balance s' = initial_balance cfg + sum_list (map tr_profit (trades s'))"
      using i2 by (simp add: core_inv_def f)
    have c3: "map eq_time (equity_curve s') = map (\<lambda>j. time (df ! j)) [start..<Suc i]"
      using i2 by (simp only: core_inv_def f)
    have e2: "opened_on d ?s2 = counted (daily_trades_count s1) d" for d
      using i2 by (simp add: core_inv_def d2)
    have b2: "counted (daily_trades_count s1) d \<le> max_daily_trades cfg" for d
      using i2 by (simp add: core_inv_def d2)
    have c4: "opened_on d s' = counted (daily_trades_count s') d" for d
      using e2 [of d] by (auto simp: op3 op2 f(6) counted_increment)
    have c5: "counted (daily_trades_count s') d \<le> max_daily_trades cfg" for d
      using b2 [of d] o(2) by (simp add: f(6) counted_increment)
    have c6: "equity_curve s' \<noteq> []"
      by (simp add: f(3) record_equity_def)
    have "core_inv cfg df start (Suc i) s'"
      unfolding core_inv_def using c1 c2 c3 c4 c5 c6 by blast
    then show ?thesis using st by simp
  qed
qed


lemma iloc_Inr_iff: "(\<exists>b. iloc df (int i) = Inr b) \<longleftrightarrow> i < length df"
  by (simp add: iloc_def)

lemma iloc_pred_Inr_iff:
  "(\<exists>b. iloc df (int e - 1) = Inr b) \<longleftrightarrow> (df \<noteq> [] \<and> e \<le> length df)"
  by (cases e) (auto simp: iloc_def Let_def)

lemma run_state_unfold:
  "run_state cfg df so eo =
     (if start_of cfg so < length df \<and> end_of df eo \<le> length df
      then (case run_loop cfg df (reset cfg) [start_of cfg so..<end_of df eo] of
              Inl e \<Rightarrow> Inl e
            | Inr s \<Rightarrow> close_remaining cfg df s (end_of df eo))
      else Inl IndexError)"
proof -
  have a: "iloc df (int (start_of cfg so)) = Inl IndexError" if "\<not> start_of cfg so < length df"
    using that by (simp add: iloc_def)
  have b: "iloc df (int (end_of df eo) - 1) = Inl IndexError"
    if "\<not> (df \<noteq> [] \<and> end_of df eo \<le> length df)"
    using that iloc_pred_Inr_iff [of df "end_of df eo"]
    by (cases "iloc df (int (end_of df eo) - 1)") (auto simp: iloc_def Let_def split: if_splits)
  show ?thesis
  proof (cases "start_of cfg so < length df")
    case False
    then show ?thesis using a
      by (simp add: run_state_def Let_def)
  next
    case s: True
    then have ne: "df \<noteq> []" by auto
    show ?thesis
    proof (cases "end_of df eo \<le> length df")
      case False
      then show ?thesis using s b
        by (simp add: run_state_def Let_def iloc_nat)
    next
      case True
      then obtain lb where "iloc df (int (end_of df eo) - 1) = Inr lb"
        using iloc_pred_Inr_iff [of df "end_of df eo"] ne by blast
      then show ?thesis using s True
        by (simp add: run_state_def Let_def iloc_nat)
    qed
  qed
qed

lemma run_loop_core:
  assumes "start \<le> e" "e \<le> length df"
  shows "\<exists>s. run_loop cfg df (reset cfg) [start..<e] = Inr s \<and> core_inv cfg df start e s"
proof (rule run_loop_invariant [where P = "core_inv cfg df start"])
  show "core_inv cfg df start start (reset cfg)" by (rule core_inv_reset)
  show "start \<le> e" by fact
  fix k s assume "start \<le> k" "k < e" "core_inv cfg df start k s"
  then show "\<exists>s'. step cfg df s k = Inr s' \<and> core_inv cfg df start (Suc k) s'"
    using assms(2) by (intro core_inv_step) auto
qed

lemma close_remaining_cases:
  assumes "wf_state sl" "e \<le> length df" "df \<noteq> []"
  shows "\<exists>s. close_remaining cfg df sl e = Inr s
     \<and> ((s = sl \<and> \<not> in_position sl)
        \<or> (\<exists>ct tr lb. in_position sl \<and> current_trade sl = Some ct
              \<and> iloc df (int e - 1) = Inr lb
              \<and> trades s = trades sl @ [tr] \<and> tr_exit_reason tr = END_OF_DATA
              \<and> tr_exit_time tr = time lb
              \<and> tr_entry_time tr = ct_entry_time ct
              \<and> balance s = balance sl + tr_profit tr
              \<and> \<not> in_position s \<and> current_trade s = None
              \<and> equity_curve s = equity_curve sl
              \<and> daily_trades_count s = daily_trades_count sl))"
proof (cases "in_position sl")
  case False
  then show ?thesis by (simp add: close_remaining_def)
next
  case True
  then obtain ct where ct: "current_trade sl = Some ct"
    using assms(1) by (auto simp: wf_state_def)
  obtain lb where lb: "iloc df (int e - 1) = Inr lb"
    using iloc_pred_Inr_iff [of df e] assms(2,3) by blast
  have cr: "close_remaining cfg df sl e = close_trade cfg sl (close lb) (time lb) END_OF_DATA"
    using True lb by (simp add: close_remaining_def)
  from close_trade_effect [OF True ct, of cfg "close lb" "time lb" END_OF_DATA]
  show ?thesis using True ct lb cr by metis
qed

lemma run_state_final:
  assumes "run_state cfg df so eo = Inr s"
  shows "start_of cfg so < length df \<and> end_of df eo \<le> length df
     \<and> (\<exists>sl. run_loop cfg df (reset cfg) [start_of cfg so..<end_of df eo] = Inr sl
           \<and> core_inv cfg df (start_of cfg so) (max (start_of cfg so) (end_of df eo)) sl
           \<and> close_remaining cfg df sl (end_of df eo) = Inr s)"
proof -
  let ?a = "start_of cfg so" and ?e = "end_of df eo"
  have g: "?a < length df \<and> ?e \<le> length df"
    using assms by (auto simp: run_state_unfold split: if_splits)
  have up: "[?a..<?e] = [?a..<max ?a ?e]" by (auto simp: max_def)
  obtain sl where sl: "run_loop cfg df (reset cfg) [?a..<max ?a ?e] = Inr sl"
    "core_inv cfg df ?a (max ?a ?e) sl"
    using run_loop_core [of ?a "max ?a ?e" df cfg] g by auto
  have "close_remaining cfg df sl ?e = Inr s"
    using assms g sl(1) by (simp add: run_state_unfold up)
  then show ?thesis using g sl up by auto
qed

lemma run_state_total:
  assumes "start_of cfg so < length df" "end_of df eo \<le> length df"
  shows "\<exists>s. run_state cfg df so eo = Inr s"
proof -
  let ?a = "start_of cfg so" and ?e = "end_of df eo"
  have up: "[?a..<?e] = [?a..<max ?a ?e]" by (auto simp: max_def)
  obtain sl where sl: "run_loop cfg df (reset cfg) [?a..<max ?a ?e] = Inr sl"
    "core_inv cfg df ?a (max ?a ?e) sl"
    using run_loop_core [of ?a "max ?a ?e" df cfg] assms by auto
  have "wf_state sl" using sl(2) by (simp add: core_inv_def)
  moreover have "df \<noteq> []" using assms(1) by auto
  ultimately obtain s where "close_remaining cfg df sl ?e = Inr s"
    using close_remaining_cases [of sl ?e df cfg] assms(2) by blast
  then show ?thesis using assms sl(1) by (simp add: run_state_unfold up)
qed











lemma get_results_empty:
  "trades s = [] \<Longrightarrow>
   get_results cfg s =
     Inr \<lparr>r_total_trades = 0, r_winning_trades = 0, r_losing_trades = 0, r_win_rate = 0,
          r_total_profit = 0, r_total_loss = 0, r_net_profit = 0, r_return_pct = Fin 0,
          r_max_drawdown = Num 0, r_max_drawdown_pct = Fin 0, r_avg_win = 0,
          r_avg_loss = 0, r_profit_factor = Fin 0, r_largest_win = 0,
          r_largest_loss = 0, r_final_balance = balance s,
          r_initial_balance = initial_balance cfg\<rparr>"
  by (simp add: get_results_def)

lemma get_results_nonempty:
  assumes "trades s \<noteq> []" "equity_curve s \<noteq> []"
  shows "\<exists>r. get_results cfg s = Inr r
           \<and> r_total_trades r = length (trades s)
           \<and> r_profit_factor r =
               (if r_total_loss r > 0 then Fin (r_total_profit r / r_total_loss r) else PInf)"
  using assms by (simp add: get_results_def py_truediv_def Let_def)

lemma run_state_equity_nonempty:
  assumes "run_state cfg df start_opt end_opt = Inr s" "trades s \<noteq> []"
  shows "equity_curve s \<noteq> []"
proof -
  let ?a = "start_of cfg start_opt" and ?e = "end_of df end_opt"
  from run_state_final [OF assms(1)]
  obtain sl where g: "?a < length df" "?e \<le> length df"
    and inv: "core_inv cfg df ?a (max ?a ?e) sl"
    and cr: "close_remaining cfg df sl ?e = Inr s"
    by blast
  have wf: "wf_state sl"
    and alt: "(trades sl = [] \<and> \<not> in_position sl) \<or> equity_curve sl \<noteq> []"
    using inv by (simp_all add: core_inv_def)
  have ne: "df \<noteq> []" using g(1) by auto
  show ?thesis
    using close_remaining_cases [OF wf g(2) ne, of cfg] cr alt assms(2) by auto
qed

lemma run_backtest_total:
  assumes "run_state cfg df so eo = Inr s"
  shows "\<exists>r. run_backtest cfg df so eo = Inr (s, r)"
proof (cases "trades s = []")
  case True
  then show ?thesis using assms by (simp add: run_backtest_def get_results_def)
next
  case False
  obtain r where "get_results cfg s = Inr r"
    using get_results_nonempty [OF False run_state_equity_nonempty [OF assms False], of cfg]
    by blast
  then show ?thesis using assms by (simp add: run_backtest_def)
qed

subsection \<open>The example runs, evaluated\<close>

lemmas engine_defs =
  run_state_def start_of_def end_of_def step_def exit_phase_def entry_phase_def
  record_equity_def close_remaining_def close_trade_def check_trade_exit_def open_trade_def
  can_trade_today_def increment_daily_trades_def date_str_def calculate_tp_sl_def
  detect_breakout_def identify_consolidation_def iloc_def slice_def pd_mean_def np_div_def
  reset_def Let_def

lemma box_run: "run_state box_cfg box_bars None None = Inr box_final"
  by (simp add: engine_defs box_cfg_def box_bars_def box_final_def upt_rec)

lemma box_get_results: "get_results box_cfg box_final = Inr box_results"
  by (simp add: get_results_def box_final_def box_cfg_def box_results_def py_truediv_def
      np_div_def pd_max_skipna_def Let_def)

lemma idle_run: "run_state box_cfg box_bars (Some 0) (Some 2) = Inr idle_final"
  by (simp add: engine_defs box_cfg_def box_bars_def idle_final_def upt_rec)


lemma bad_run: "run_state box_cfg bad_bars None None = Inr bad_final"
  by (simp add: engine_defs box_cfg_def bad_bars_def bad_final_def upt_rec)

section \<open>Equity curve and single position\<close>




section \<open>Exit order\<close>

text \<open>
  C2: while a trade is open and no earlier bar triggers an exit, the first bar whose high
  reaches the take-profit of a BUY trade (low for a SELL trade) closes it with reason TP
  at the take-profit price, with profit (take_profit - entry_price) * lot_size * 100
  (mirrored for SELL), whatever that bar's low is: the take-profit test comes first.
\<close>

theorem take_profit_checked_before_stop_loss:
  assumes "in_position s" and "current_trade s = Some ct"
    and "i \<le> j" and "j < length df"
    and "\<forall>k. i \<le> k \<and> k < j \<longrightarrow> check_trade_exit s (df ! k) = None"
    and "(ct_type ct = BUY \<and> ct_take_profit ct \<le> high (df ! j))
         \<or> (ct_type ct = SELL \<and> low (df ! j) \<le> ct_take_profit ct)"
  shows "\<exists>s' tr. run_loop cfg df s [i..<Suc j] = Inr s' \<and> trades s' = trades s @ [tr]
           \<and> tr_exit_reason tr = TP \<and> tr_exit_price tr = ct_take_profit ct
           \<and> tr_exit_time tr = time (df ! j)
           \<and> tr_profit tr =
               (case ct_type ct of BUY \<Rightarrow> ct_take_profit ct - ct_entry_price ct
                                 | SELL \<Rightarrow> ct_entry_price ct - ct_take_profit ct)
               * lot_size cfg * 100
           \<and> balance s' = balance s + tr_profit tr"
proof -
  obtain n where n: "j = i + n" using assms(3) by (auto simp: le_iff_add)
  obtain s1 where s1: "run_loop cfg df s [i..<i + n] = Inr s1" "in_position s1"
    "current_trade s1 = current_trade s" "trades s1 = trades s" "balance s1 = balance s"
    using run_loop_hold [of i n df s cfg] assms(1,4,5) n by auto
  obtain s' tr where st: "step cfg df s1 j = Inr s'" "trades s' = trades s1 @ [tr]"
     "tr_exit_reason tr = TP" "tr_exit_price tr = ct_take_profit ct"
     "tr_exit_time tr = time (df ! j)"
     "tr_profit tr =
               (case ct_type ct of BUY \<Rightarrow> ct_take_profit ct - ct_entry_price ct
                                 | SELL \<Rightarrow> ct_entry_price ct - ct_take_profit ct)
               * lot_size cfg * 100"
     "balance s' = balance s1 + tr_profit tr"
    using step_take_profit [OF assms(4) s1(2) _ assms(6), of cfg] s1(3) assms(2) by auto
  have "[i..<Suc j] = [i..<i + n] @ [j]" using n by simp
  then have "run_loop cfg df s [i..<Suc j] = Inr s'"
    using s1(1) st(1) by (simp add: run_loop_append)
  then show ?thesis using st s1 by auto
qed

theorem take_profit_checked_before_stop_loss_witness:
  "low (tp_bars ! 1) \<le> ct_stop_loss tp_trade \<and>
   (\<exists>s' tr. run_loop ex_cfg tp_bars tp_state [0..<Suc 1] = Inr s' \<and> trades s' = [tr]
        \<and> tr_exit_reason tr = TP \<and> tr_exit_price tr = 110 \<and> tr_exit_time tr = 2
        \<and> tr_profit tr = 10 \<and> balance s' = 10010)"
proof -
  have h1: "in_position tp_state" and h2: "current_trade tp_state = Some tp_trade"
    by (simp_all add: tp_state_def)
  have h3: "(0::nat) \<le> 1" and h4: "1 < length tp_bars"
    by (simp_all add: tp_bars_def)
  have h5: "\<forall>k. 0 \<le> k \<and> k < 1 \<longrightarrow> check_trade_exit tp_state (tp_bars ! k) = None"
    by (simp add: tp_state_def tp_bars_def tp_trade_def check_trade_exit_def)
  have h6: "(ct_type tp_trade = BUY \<and> ct_take_profit tp_trade \<le> high (tp_bars ! 1))
         \<or> (ct_type tp_trade = SELL \<and> low (tp_bars ! 1) \<le> ct_take_profit tp_trade)"
    by (simp add: tp_bars_def tp_trade_def)
  have v: "ct_take_profit tp_trade = 110" "ct_entry_price tp_trade = 100"
    "ct_type tp_trade = BUY" "lot_size ex_cfg = 1 / 100" "balance tp_state = 10000"
    "trades tp_state = []" "time (tp_bars ! 1) = 2"
    by (simp_all add: tp_trade_def ex_cfg_def tp_state_def tp_bars_def)
  have sl: "low (tp_bars ! 1) \<le> ct_stop_loss tp_trade"
    by (simp add: tp_bars_def tp_trade_def)
  obtain s' tr where r: "run_loop ex_cfg tp_bars tp_state [0..<Suc 1] = Inr s'"
    "trades s' = trades tp_state @ [tr]" "tr_exit_reason tr = TP"
    "tr_exit_price tr = ct_take_profit tp_trade" "tr_exit_time tr = time (tp_bars ! 1)"
    "tr_profit tr = (case ct_type tp_trade of
                       BUY \<Rightarrow> ct_take_profit tp_trade - ct_entry_price tp_trade
                     | SELL \<Rightarrow> ct_entry_price tp_trade - ct_take_profit tp_trade)
                    * lot_size ex_cfg * 100"
    "balance s' = balance tp_state + tr_profit tr"
    using take_profit_checked_before_stop_loss [OF h1 h2 h3 h4 h5 h6, of ex_cfg] by blast
  have "trades s' = [tr]" "tr_exit_price tr = 110" "tr_exit_time tr = 2"
    "tr_profit tr = 10" "balance s' = 10010"
    using r(2-7) by (simp_all add: v tp_bars_def)
  with r(1,3) sl show ?thesis by blast
qed

section \<open>Stop and target levels\<close>


section \<open>Consolidation detector\<close>




section \<open>Daily cap\<close>

text \<open>
  C6: in every run with max_daily_trades = m, at most m of the trades of the run were
  entered on any one calendar date. In the example run m = 1, the signals of bars 2 and 6
  both qualify on the same date, and exactly one trade is opened.
\<close>

theorem daily_cap_respected:
  assumes "run_state cfg df start_opt end_opt = Inr s"
  shows "length (filter (\<lambda>tr. date_str (tr_entry_time tr) = d) (trades s))
           \<le> max_daily_trades cfg"
proof -
  let ?a = "start_of cfg start_opt" and ?e = "end_of df end_opt"
  from run_state_final [OF assms]
  obtain sl where g: "?a < length df" "?e \<le> length df"
    and inv: "core_inv cfg df ?a (max ?a ?e) sl"
    and cr: "close_remaining cfg df sl ?e = Inr s"
    by blast
  have wf: "wf_state sl" and op: "opened_on d sl = counted (daily_trades_count sl) d"
    and le: "counted (daily_trades_count sl) d \<le> max_daily_trades cfg"
    using inv by (simp_all add: core_inv_def)
  have ne: "df \<noteq> []" using g(1) by auto
  have "length (filter (\<lambda>tr. date_str (tr_entry_time tr) = d) (trades s)) = opened_on d sl"
    using close_remaining_cases [OF wf g(2) ne, of cfg] cr wf
    by (auto simp: opened_on_def wf_state_def)
  then show ?thesis using op le by simp
qed

theorem daily_cap_respected_witness:
  "run_state box_cfg box_bars None None = Inr box_final
   \<and> max_daily_trades box_cfg = 1
   \<and> map date_str (map time box_bars) = [0, 0, 0, 0, 0, 0, 0]
   \<and> box_levels (identify_consolidation box_cfg box_bars 2) = Some (100.5, 100, 0.5)
   \<and> detect_breakout box_bars 2 100.5 100 = Inr (Some BUY)
   \<and> box_levels (identify_consolidation box_cfg box_bars 6) = Some (102.5, 102, 0.5)
   \<and> detect_breakout box_bars 6 102.5 102 = Inr (Some BUY)
   \<and> length (filter (\<lambda>tr. date_str (tr_entry_time tr) = 0) (trades box_final)) \<le> 1
   \<and> length (trades box_final) = 1"
proof -
  have sig: "box_levels (identify_consolidation box_cfg box_bars 2) = Some (100.5, 100, 0.5)"
    "detect_breakout box_bars 2 100.5 100 = Inr (Some BUY)"
    "box_levels (identify_consolidation box_cfg box_bars 6) = Some (102.5, 102, 0.5)"
    "detect_breakout box_bars 6 102.5 102 = Inr (Some BUY)"
    by (simp_all add: engine_defs box_cfg_def box_bars_def)
  have m: "max_daily_trades box_cfg = 1"
    "map date_str (map time box_bars) = [0, 0, 0, 0, 0, 0, 0]"
    "length (trades box_final) = 1"
    by (simp_all add: box_cfg_def box_bars_def box_final_def date_str_def)
  show ?thesis
    using daily_cap_respected [OF box_run, of 0] box_run sig m by simp
qed


section \<open>Results on degenerate runs\<close>

text \<open>
  C7: for every run the results computation returns a result: with no closed trade every
  derived metric is zero, and with at least one closed trade and zero gross loss the profit
  factor is the infinite sentinel.
\<close>

theorem results_never_raise:
  assumes "run_state cfg df start_opt end_opt = Inr s"
  shows "\<exists>r. get_results cfg s = Inr r
     \<and> run_backtest cfg df start_opt end_opt = Inr (s, r)
     \<and> (trades s = [] \<longrightarrow>
          r = \<lparr>r_total_trades = 0, r_winning_trades = 0, r_losing_trades = 0,
               r_win_rate = 0, r_total_profit = 0, r_total_loss = 0, r_net_profit = 0,
               r_return_pct = Fin 0, r_max_drawdown = Num 0, r_max_drawdown_pct = Fin 0,
               r_avg_win = 0, r_avg_loss = 0, r_profit_factor = Fin 0, r_largest_win = 0,
               r_largest_loss = 0, r_final_balance = balance s,
               r_initial_balance = initial_balance cfg\<rparr>)
     \<and> (trades s \<noteq> [] \<and> r_total_loss r = 0 \<longrightarrow> r_profit_factor r = PInf)"
proof (cases "trades s = []")
  case True
  then show ?thesis
    using assms by (simp add: get_results_empty run_backtest_def)
next
  case False
  then have "equity_curve s \<noteq> []"
    using run_state_equity_nonempty [OF assms] by simp
  from get_results_nonempty [OF False this, of cfg]
  obtain r where r: "get_results cfg s = Inr r"
    "r_profit_factor r =
       (if r_total_loss r > 0 then Fin (r_total_profit r / r_total_loss r) else PInf)"
    by blast
  have "run_backtest cfg df start_opt end_opt = Inr (s, r)"
    using assms r(1) by (simp add: run_backtest_def)
  then show ?thesis using False r by auto
qed

theorem results_never_raise_witness:
  "run_state box_cfg box_bars None None = Inr box_final
   \<and> trades box_final \<noteq> []
   \<and> run_backtest box_cfg box_bars None None = Inr (box_final, box_results)
   \<and> r_total_loss box_results = 0 \<and> r_profit_factor box_results = PInf
   \<and> run_state box_cfg box_bars (Some 0) (Some 2) = Inr idle_final
   \<and> trades idle_final = []
   \<and> (\<exists>r. run_backtest box_cfg box_bars (Some 0) (Some 2) = Inr (idle_final, r)
          \<and> r_profit_factor r = Fin 0 \<and> r_win_rate r = 0 \<and> r_max_drawdown r = Num 0)"
proof -
  have a: "trades box_final \<noteq> []" "trades idle_final = []"
    "r_total_loss box_results = 0"
    by (simp_all add: box_final_def idle_final_def box_results_def)
  show ?thesis
    using results_never_raise [OF box_run] results_never_raise [OF idle_run]
      box_run idle_run box_get_results a
    by auto
qed

section \<open>Malformed input\<close>

text \<open>
  C8 as stated fails: a series whose times decrease is replayed without any error.
\<close>

theorem unordered_series_accepted:
  "\<not> sorted_wrt (<) (map time bad_bars)
   \<and> run_state box_cfg bad_bars None None = Inr bad_final
   \<and> \<not> isl (run_backtest box_cfg bad_bars None None)"
proof -
  obtain r where "run_backtest box_cfg bad_bars None None = Inr (bad_final, r)"
    using run_backtest_total [OF bad_run] by blast
  then show ?thesis using bad_run by (simp add: bad_bars_def)
qed

text \<open>
  C8, amended: the engine does not validate its input. A run of the basic engine fails,
  with the IndexError of the progress line printed before the loop, exactly when start_idx
  or end_idx - 1 is not a position of the series, which is the case of every empty series;
  any other series, whatever the order of its times, is replayed without error, with one
  equity sample per bar from start_idx to end_idx - 1 in index order. The ultra engine
  fails in the same way on an empty series when verbose, and with verbose off and the
  default indices it replays the empty series without any error.
\<close>

theorem no_input_validation:
  "(\<not> (start_of cfg start_opt < length df \<and> end_of df end_opt \<le> length df) \<longrightarrow>
      run_backtest cfg df start_opt end_opt = Inl IndexError)
   \<and> (start_of cfg start_opt < length df \<and> end_of df end_opt \<le> length df \<longrightarrow>
        (\<exists>s r. run_backtest cfg df start_opt end_opt = Inr (s, r)
           \<and> map eq_time (equity_curve s) =
               map (\<lambda>j. time (df ! j)) [start_of cfg start_opt..<end_of df end_opt]))
   \<and> run_backtest cfg [] start_opt end_opt = Inl IndexError
   \<and> u_run_state ucfg s0 [] start_opt end_opt True = Inl IndexError
   \<and> u_run_state ucfg s0 [] None None False = Inr (u_reset ucfg s0)"
proof (intro conjI impI)
  show "u_run_state ucfg s0 [] start_opt end_opt True = Inl IndexError"
    by (simp add: u_run_state_def iloc_def Let_def)
next
  show "u_run_state ucfg s0 [] None None False = Inr (u_reset ucfg s0)"
    by (simp add: u_run_state_def replay_indices_def u_end_of_def u_close_remaining_def
        u_reset_def Let_def)
next
  assume "\<not> (start_of cfg start_opt < length df \<and> end_of df end_opt \<le> length df)"
  then have "run_state cfg df start_opt end_opt = Inl IndexError"
    by (auto simp: run_state_unfold)
  then show "run_backtest cfg df start_opt end_opt = Inl IndexError"
    by (simp add: run_backtest_def)
next
  show "run_backtest cfg [] start_opt end_opt = Inl IndexError"
    by (simp add: run_backtest_def run_state_unfold)
next
  let ?a = "start_of cfg start_opt" and ?e = "end_of df end_opt"
  assume g: "?a < length df \<and> ?e \<le> length df"
  then obtain s where s: "run_state cfg df start_opt end_opt = Inr s"
    using run_state_total by blast
  obtain r where r: "run_backtest cfg df start_opt end_opt = Inr (s, r)"
    using run_backtest_total [OF s] by blast
  from run_state_final [OF s]
  obtain sl where core: "core_inv cfg df ?a (max ?a ?e) sl"
    and cr: "close_remaining cfg df sl ?e = Inr s"
    by blast
  have up: "[?a..<?e] = [?a..<max ?a ?e]" by (auto simp: max_def)
  have wf: "wf_state sl" using core by (simp add: core_inv_def)
  have ne: "df \<noteq> []" using g by auto
  have "equity_curve s = equity_curve sl"
    using close_remaining_cases [of sl ?e df cfg] wf g ne cr by auto
  then have "map eq_time (equity_curve s) = map (\<lambda>j. time (df ! j)) [?a..<?e]"
    using core up by (simp add: core_inv_def)
  then show "\<exists>s r. run_backtest cfg df start_opt end_opt = Inr (s, r)
           \<and> map eq_time (equity_curve s) = map (\<lambda>j. time (df ! j)) [?a..<?e]"
    using r by blast
qed

theorem no_input_validation_witness:
  "start_of box_cfg None < length bad_bars \<and> end_of bad_bars None \<le> length bad_bars
   \<and> \<not> sorted_wrt (<) (map time bad_bars)
   \<and> (\<exists>s r. run_backtest box_cfg bad_bars None None = Inr (s, r)
          \<and> map eq_time (equity_curve s) = [0])
   \<and> \<not> (start_of box_cfg (Some 3) < length bad_bars)
   \<and> run_backtest box_cfg bad_bars (Some 3) None = Inl IndexError
   \<and> run_backtest box_cfg [] None None = Inl IndexError
   \<and> u_run_state ultra_cfg (u_init ultra_cfg) [] None None True = Inl IndexError
   \<and> u_run_state ultra_cfg (u_init ultra_cfg) [] None None False
       = Inr (u_reset ultra_cfg (u_init ultra_cfg))"
proof -
  have g: "start_of box_cfg None = 2" "end_of bad_bars None = 3" "length bad_bars = 3"
    "start_of box_cfg (Some 3) = 3" "\<not> sorted_wrt (<) (map time bad_bars)"
    "time (bad_bars ! 2) = 0"
    by (simp_all add: start_of_def end_of_def box_cfg_def bad_bars_def upt_rec)
  show ?thesis
    using no_input_validation [of box_cfg None bad_bars None ultra_cfg "u_init ultra_cfg"]
      no_input_validation [of box_cfg "Some 3" bad_bars None ultra_cfg "u_init ultra_cfg"]
    by (simp add: g)
qed

section \<open>Filters without enough history\<close>

lemma calculate_sma_None: "calculate_sma df period idx = None \<longleftrightarrow> idx < period"
  by (simp add: calculate_sma_def)

text \<open>
  C3 as stated fails: with too few bars for its moving average the enabled MTF
  confirmation returns True, it does not veto.
\<close>

theorem mtf_passes_without_history:
  "use_mtf_confirmation ultra_cfg
   \<and> calculate_sma box_bars (higher_tf_period ultra_cfg) 2 = None
   \<and> check_mtf_confirmation ultra_cfg box_bars 2 BUY = Inr True"
  by (simp add: ultra_cfg_def check_mtf_confirmation_def calculate_sma_def)

text \<open>
  C3, amended: a moving average is missing exactly when the index is smaller than its
  period; when the fast or the slow average is missing the enabled Trend filter vetoes
  the signal, and when the long average is missing the enabled MTF confirmation passes it.
\<close>

theorem missing_ma_trend_vetoes_mtf_passes:
  "(use_trend_filter cfg
      \<and> (calculate_sma df 20 idx = None \<or> calculate_sma df (trend_period cfg) idx = None)
      \<longrightarrow> check_trend cfg df idx sig = Inr False)
   \<and> (use_mtf_confirmation cfg \<and> calculate_sma df (higher_tf_period cfg) idx = None
      \<longrightarrow> check_mtf_confirmation cfg df idx sig = Inr True)
   \<and> (calculate_sma df period idx = None \<longleftrightarrow> idx < period)"
proof (intro conjI impI)
  assume "use_trend_filter cfg
      \<and> (calculate_sma df 20 idx = None \<or> calculate_sma df (trend_period cfg) idx = None)"
  then show "check_trend cfg df idx sig = Inr False"
    by (auto simp: check_trend_def split: option.splits)
next
  assume "use_mtf_confirmation cfg \<and> calculate_sma df (higher_tf_period cfg) idx = None"
  then show "check_mtf_confirmation cfg df idx sig = Inr True"
    by (simp add: check_mtf_confirmation_def)
next
  show "calculate_sma df period idx = None \<longleftrightarrow> idx < period"
    by (rule calculate_sma_None)
qed

theorem missing_ma_trend_vetoes_mtf_passes_witness:
  "use_trend_filter ultra_cfg \<and> calculate_sma box_bars (trend_period ultra_cfg) 2 = None
   \<and> check_trend ultra_cfg box_bars 2 BUY = Inr False
   \<and> use_mtf_confirmation ultra_cfg
   \<and> calculate_sma box_bars (higher_tf_period ultra_cfg) 2 = None
   \<and> check_mtf_confirmation ultra_cfg box_bars 2 BUY = Inr True"
proof -
  have a: "use_trend_filter ultra_cfg" "use_mtf_confirmation ultra_cfg"
    "calculate_sma box_bars (trend_period ultra_cfg) 2 = None"
    "calculate_sma box_bars (higher_tf_period ultra_cfg) 2 = None"
    by (simp_all add: ultra_cfg_def calculate_sma_def)
  show ?thesis
    using missing_ma_trend_vetoes_mtf_passes [of ultra_cfg box_bars 2 BUY] a by simp
qed

section \<open>False-breakout confirmation\<close>

lemma iloc_nat_add:
  "i + a < length df \<Longrightarrow> iloc df (int i + int a) = Inr (df ! (i + a))"
  using iloc_nat [of "i + a" df] by simp

lemma confirm_bars_in_range:
  assumes "\<forall>i\<in>set is. idx + i < length df"
  shows "\<exists>b. confirm_bars df idx hl ll sig is = Inr b"
  using assms
  by (induction "is") (auto simp: iloc_nat_add split: signal_type.splits)

lemma confirm_bars_frame:
  assumes "\<forall>i\<in>set is. idx + i < length df \<and> df' ! (idx + i) = df ! (idx + i)"
    and "length df' = length df"
  shows "confirm_bars df' idx hl ll sig is = confirm_bars df idx hl ll sig is"
  using assms
  by (induction "is") (auto simp: iloc_nat_add split: signal_type.splits)

text \<open>
  C4: the enabled false-breakout filter never reads out of range (it returns a value, not
  an IndexError); when there are fewer than confirmation_bars bars after index i it
  returns False; and its result depends on the series only through its length and the
  bars i+1, ..., i+confirmation_bars.
\<close>

theorem false_breakout_reads_in_range:
  assumes "use_false_breakout_filter cfg"
  shows "(\<exists>b. check_false_breakout cfg df idx hl ll sig = Inr b)
     \<and> (length df \<le> idx + confirmation_bars cfg \<longrightarrow>
          check_false_breakout cfg df idx hl ll sig = Inr False)
     \<and> (length df' = length df
          \<and> (\<forall>k. idx + 1 \<le> k \<and> k \<le> idx + confirmation_bars cfg \<longrightarrow> df' ! k = df ! k)
          \<longrightarrow> check_false_breakout cfg df' idx hl ll sig
                = check_false_breakout cfg df idx hl ll sig)"
proof (cases "length df \<le> idx + confirmation_bars cfg")
  case True
  then show ?thesis using assms by (auto simp: check_false_breakout_def)
next
  case False
  then have r: "\<forall>i\<in>set [1..<confirmation_bars cfg + 1]. idx + i < length df" by auto
  have ex: "\<exists>b. check_false_breakout cfg df idx hl ll sig = Inr b"
    using assms False confirm_bars_in_range [OF r] by (simp add: check_false_breakout_def)
  have fr: "check_false_breakout cfg df' idx hl ll sig
                = check_false_breakout cfg df idx hl ll sig"
    if "length df' = length df"
      "\<forall>k. idx + 1 \<le> k \<and> k \<le> idx + confirmation_bars cfg \<longrightarrow> df' ! k = df ! k"
  proof -
    have "\<forall>i\<in>set [1..<confirmation_bars cfg + 1].
            idx + i < length df \<and> df' ! (idx + i) = df ! (idx + i)"
      using r that(2) by auto
    from confirm_bars_frame [OF this that(1)] show ?thesis
      using that(1) by (simp add: check_false_breakout_def)
  qed
  show ?thesis using ex fr False by blast
qed

theorem false_breakout_reads_in_range_witness:
  "use_false_breakout_filter ultra_cfg
   \<and> length box_bars \<le> 6 + confirmation_bars ultra_cfg
   \<and> check_false_breakout ultra_cfg box_bars 6 102.5 102 BUY = Inr False
   \<and> check_false_breakout ultra_cfg box_bars 2 100.5 100 BUY = Inr True
   \<and> check_false_breakout ultra_cfg (take 4 box_bars) 3 100.5 100 BUY = Inr False
   \<and> check_false_breakout ultra_cfg (box_bars[0 := box_bars ! 6, 6 := box_bars ! 0])
         2 100.5 100 BUY = Inr True"
proof -
  have a: "use_false_breakout_filter ultra_cfg" by (simp add: ultra_cfg_def)
  have cb: "confirmation_bars ultra_cfg = 1" by (simp add: ultra_cfg_def)
  have b: "length box_bars \<le> 6 + confirmation_bars ultra_cfg"
    by (simp add: box_bars_def cb)
  have c: "check_false_breakout ultra_cfg box_bars 2 100.5 100 BUY = Inr True"
    "check_false_breakout ultra_cfg (take 4 box_bars) 3 100.5 100 BUY = Inr False"
    by (simp_all add: check_false_breakout_def a cb box_bars_def iloc_def upt_rec)
  have d: "length (box_bars[0 := box_bars ! 6, 6 := box_bars ! 0]) = length box_bars
     \<and> (\<forall>k. 2 + 1 \<le> k \<and> k \<le> 2 + confirmation_bars ultra_cfg \<longrightarrow>
           (box_bars[0 := box_bars ! 6, 6 := box_bars ! 0]) ! k = box_bars ! k)"
    by (auto simp: cb)
  show ?thesis
    using false_breakout_reads_in_range [OF a, of box_bars 6 "102.5" 102 BUY box_bars]
      false_breakout_reads_in_range [OF a, of box_bars 2 "100.5" 100 BUY
        "box_bars[0 := box_bars ! 6, 6 := box_bars ! 0]"]
      a b c d
    by simp
qed

section \<open>Default replay end of the ultra engine\<close>
















end
